theory Spec2Isabelle
  imports Complex_Main "HOL-Library.Word" "HOL-Library.Char_ord" "HOL-Library.List_Lexorder"
    "HOL-Library.Sublist"
begin

section \<open>The pg\_stat\_database collector\<close>

text \<open>
  A shallow embedding of \<^verbatim>\<open>collector/pg_stat_database.go\<close>: the metric descriptors, the
  query builder \<^verbatim>\<open>statDatabaseQuery\<close> and the method \<^verbatim>\<open>PGStatDatabaseCollector.Update\<close>.

  What the Go code gets from its libraries is data of the model:
  \<^item> a \<^verbatim>\<open>float64\<close> is a \<open>real\<close> (IEEE rounding is not modelled), a \<^verbatim>\<open>uint64\<close> a \<open>64 word\<close>,
    a Go \<^verbatim>\<open>string\<close> a \<open>string\<close>, an \<^verbatim>\<open>error\<close> a value of type \<open>error\<close>;
  \<^item> the channel \<^verbatim>\<open>ch\<close>, the logger \<^verbatim>\<open>c.log\<close> and the database are seen through an explicit
    state: every send appends a metric, every \<^verbatim>\<open>Debug\<close> call appends its message, every
    \<^verbatim>\<open>QueryContext\<close> call appends its query text;
  \<^item> the database is a function from the query text to what \<^verbatim>\<open>QueryContext\<close> returns: an
    error, or the rows of the result, each of them being what \<^verbatim>\<open>rows.Scan\<close> yields for it;
  \<^item> a call ends by returning (an error or \<^verbatim>\<open>nil\<close>) or by a panic of
    \<^verbatim>\<open>MustNewConstMetric\<close>; what was sent before a panic stays sent.
\<close>

subsection \<open>Values of the libraries\<close>

datatype error = Error string

text \<open>\<^verbatim>\<open>sql.NullString\<close>, \<^verbatim>\<open>sql.NullFloat64\<close> and \<^verbatim>\<open>sql.NullTime\<close>: a value and the flag
  \<^verbatim>\<open>Valid\<close>, false for a database NULL. A \<^verbatim>\<open>time.Time\<close> is read through \<^verbatim>\<open>Unix()\<close> only,
  so it is modelled by the seconds that call returns.\<close>

record NullString =
  String_val :: string
  String_Valid :: bool

record NullFloat64 =
  Float64 :: real
  Float64_Valid :: bool

datatype Time = Time (Unix: int)

record NullTime =
  Time_val :: Time
  Time_Valid :: bool

subsection \<open>Versions (package semver)\<close>

text \<open>A \<^verbatim>\<open>semver.Version\<close> with its pre-release identifiers, and the library's comparison:
  major, minor and patch first; then a version without pre-release identifiers is above
  one with them; then the identifiers pairwise, a numeric one below an alphanumeric one;
  then the shorter list below the longer. Build metadata takes no part.\<close>

datatype PRVersion = PRNum "64 word" | PRStr string

record Version =
  Major :: "64 word"
  Minor :: "64 word"
  Patch :: "64 word"
  Pre :: "PRVersion list"
  Build :: "string list"

fun PRVersion_Compare :: "PRVersion \<Rightarrow> PRVersion \<Rightarrow> int" where
  "PRVersion_Compare (PRNum a) (PRStr b) = -1"
| "PRVersion_Compare (PRStr a) (PRNum b) = 1"
| "PRVersion_Compare (PRNum a) (PRNum b) = (if a = b then 0 else if a > b then 1 else -1)"
| "PRVersion_Compare (PRStr a) (PRStr b) = (if a = b then 0 else if a > b then 1 else -1)"

fun Pre_Compare :: "PRVersion list \<Rightarrow> PRVersion list \<Rightarrow> int" where
  "Pre_Compare [] [] = 0"
| "Pre_Compare [] (y # ys) = -1"
| "Pre_Compare (x # xs) [] = 1"
| "Pre_Compare (x # xs) (y # ys) =
     (let comp = PRVersion_Compare x y in
      if comp = 0 then Pre_Compare xs ys else if comp = 1 then 1 else -1)"

definition Compare :: "Version \<Rightarrow> Version \<Rightarrow> int" where
  "Compare v o' =
     (if Major v \<noteq> Major o' then (if Major v > Major o' then 1 else -1)
      else if Minor v \<noteq> Minor o' then (if Minor v > Minor o' then 1 else -1)
      else if Patch v \<noteq> Patch o' then (if Patch v > Patch o' then 1 else -1)
      else if Pre v = [] \<and> Pre o' = [] then 0
      else if Pre v = [] \<and> Pre o' \<noteq> [] then 1
      else if Pre v \<noteq> [] \<and> Pre o' = [] then -1
      else Pre_Compare (Pre v) (Pre o'))"

definition GTE :: "Version \<Rightarrow> Version \<Rightarrow> bool" where
  "GTE v o' = (Compare v o' \<ge> 0)"

text \<open>The value of \<^verbatim>\<open>semver.MustParse("14.0.0")\<close>.\<close>

definition version_14_0_0 :: Version where
  "version_14_0_0 = \<lparr>Major = 14, Minor = 0, Patch = 0, Pre = [], Build = []\<rparr>"

subsection \<open>Metrics (package prometheus)\<close>

datatype ValueType = CounterValue | GaugeValue

record Desc =
  fqName :: string
  helpText :: string
  variableLabels :: "string list"
  descErr :: "error option"

record Metric =
  desc :: Desc
  valueType :: ValueType
  val :: real
  labelValues :: "string list"

text \<open>\<^verbatim>\<open>prometheus.BuildFQName\<close> joins the non-empty parts with an underscore; an empty
  name gives the empty string.\<close>

definition BuildFQName :: "string \<Rightarrow> string \<Rightarrow> string \<Rightarrow> string" where
  "BuildFQName namespace subsystem name =
     (if name = [] then []
      else if namespace \<noteq> [] \<and> subsystem \<noteq> [] then namespace @ ''_'' @ subsystem @ ''_'' @ name
      else if namespace \<noteq> [] then namespace @ ''_'' @ name
      else if subsystem \<noteq> [] then subsystem @ ''_'' @ name
      else name)"

text \<open>The names \<^verbatim>\<open>NewDesc\<close> accepts. The library checks names by the scheme it is
  configured with; the model takes the legacy scheme, the stricter one (a name it accepts
  is ASCII, hence accepted by the other scheme, which asks for valid UTF-8 only). A metric
  name is a non-empty word of letters, digits, underscores and colons that does not start
  with a digit; a label name has no colon and, for \<^verbatim>\<open>checkLabelName\<close>, does not start with
  two underscores.\<close>

definition isValidLegacyRune :: "char \<Rightarrow> nat \<Rightarrow> bool" where
  "isValidLegacyRune b i =
     ((CHR ''a'' \<le> b \<and> b \<le> CHR ''z'') \<or> (CHR ''A'' \<le> b \<and> b \<le> CHR ''Z'') \<or> b = CHR ''_'' \<or>
      b = CHR '':'' \<or> (CHR ''0'' \<le> b \<and> b \<le> CHR ''9'' \<and> i > 0))"

definition IsValidMetricName :: "string \<Rightarrow> bool" where
  "IsValidMetricName n =
     (if length n = 0 then False
      else list_all (\<lambda>(i, b). isValidLegacyRune b i) (enumerate 0 n))"

definition LabelName_IsValid :: "string \<Rightarrow> bool" where
  "LabelName_IsValid l =
     (if length l = 0 then False
      else list_all (\<lambda>(i, b). (CHR ''a'' \<le> b \<and> b \<le> CHR ''z'') \<or> (CHR ''A'' \<le> b \<and> b \<le> CHR ''Z'') \<or>
                               b = CHR ''_'' \<or> (CHR ''0'' \<le> b \<and> b \<le> CHR ''9'' \<and> i > 0))
             (enumerate 0 l))"

definition checkLabelName :: "string \<Rightarrow> bool" where
  "checkLabelName l = (LabelName_IsValid l \<and> \<not> prefix ''__'' l)"

text \<open>\<^verbatim>\<open>prometheus.NewDesc\<close> (without constant labels, as every call here): the descriptor
  keeps an error when its name is not a metric name, when one of its label names is
  refused, or when a label name occurs twice.\<close>

definition NewDesc :: "string \<Rightarrow> string \<Rightarrow> string list \<Rightarrow> Desc" where
  "NewDesc fq h ls =
     \<lparr>fqName = fq, helpText = h, variableLabels = ls,
      descErr = (if \<not> IsValidMetricName fq then Some (Error ''not a valid metric name'')
                 else if \<not> list_all checkLabelName ls then Some (Error ''not a valid label name'')
                 else if \<not> distinct ls then Some (Error ''duplicate label names'')
                 else None)\<rparr>"

text \<open>\<^verbatim>\<open>utf8.ValidString\<close> on the bytes of a Go string: every character is one ASCII byte,
  or a well-formed sequence of two, three or four bytes (no overlong form, no surrogate,
  nothing above U+10FFFF).\<close>

definition byte_in :: "char \<Rightarrow> nat \<Rightarrow> nat \<Rightarrow> bool" where
  "byte_in b lo hi = (lo \<le> of_char b \<and> of_char b \<le> hi)"

fun ValidString :: "string \<Rightarrow> bool" where
  "ValidString [] = True"
| "ValidString (b0 # bs) =
     (if byte_in b0 0x00 0x7F then ValidString bs
      else if byte_in b0 0xC2 0xDF then
        (case bs of
           b1 # bs1 \<Rightarrow> byte_in b1 0x80 0xBF \<and> ValidString bs1
         | _ \<Rightarrow> False)
      else if byte_in b0 0xE0 0xEF then
        (case bs of
           b1 # b2 # bs2 \<Rightarrow>
             byte_in b1 (if byte_in b0 0xE0 0xE0 then 0xA0 else 0x80)
                        (if byte_in b0 0xED 0xED then 0x9F else 0xBF) \<and>
             byte_in b2 0x80 0xBF \<and> ValidString bs2
         | _ \<Rightarrow> False)
      else if byte_in b0 0xF0 0xF4 then
        (case bs of
           b1 # b2 # b3 # bs3 \<Rightarrow>
             byte_in b1 (if byte_in b0 0xF0 0xF0 then 0x90 else 0x80)
                        (if byte_in b0 0xF4 0xF4 then 0x8F else 0xBF) \<and>
             byte_in b2 0x80 0xBF \<and> byte_in b3 0x80 0xBF \<and> ValidString bs3
         | _ \<Rightarrow> False)
      else False)"

text \<open>The metric \<^verbatim>\<open>NewConstMetric\<close> builds when it accepts its arguments.\<close>

definition constMetric :: "Desc \<Rightarrow> ValueType \<Rightarrow> real \<Rightarrow> string list \<Rightarrow> Metric" where
  "constMetric d t v ls = \<lparr>desc = d, valueType = t, val = v, labelValues = ls\<rparr>"

text \<open>\<^verbatim>\<open>prometheus.NewConstMetric\<close> returns the error of the descriptor if it has one, an
  error when the number of label values is not the number of labels of the descriptor or
  when a label value is not valid UTF-8, and the metric otherwise.
  \<^verbatim>\<open>prometheus.MustNewConstMetric\<close> panics on such an error: \<open>None\<close> is the panic.\<close>

definition NewConstMetric :: "Desc \<Rightarrow> ValueType \<Rightarrow> real \<Rightarrow> string list \<Rightarrow> error + Metric" where
  "NewConstMetric d t v ls =
     (case descErr d of
        Some e \<Rightarrow> Inl e
      | None \<Rightarrow>
          if length ls \<noteq> length (variableLabels d) then Inl (Error ''inconsistent label cardinality'')
          else if \<not> list_all ValidString ls then Inl (Error ''label value is not valid UTF-8'')
          else Inr (constMetric d t v ls))"

definition MustNewConstMetric :: "Desc \<Rightarrow> ValueType \<Rightarrow> real \<Rightarrow> string list \<Rightarrow> Metric option" where
  "MustNewConstMetric d t v ls =
     (case NewConstMetric d t v ls of Inl e \<Rightarrow> None | Inr m \<Rightarrow> Some m)"

subsection \<open>The descriptors\<close>

text \<open>The constant \<^verbatim>\<open>namespace\<close> is declared in another file of the package; it is the
  parameter \<open>ns\<close> of every descriptor.\<close>

definition statDatabaseSubsystem :: string where
  "statDatabaseSubsystem = ''stat_database''"

definition statDatabaseNumbackends :: "string \<Rightarrow> Desc" where
  "statDatabaseNumbackends ns = NewDesc
     (BuildFQName ns statDatabaseSubsystem ''numbackends'')
     ''Number of backends currently connected to this database. This is the only column in this view that returns a value reflecting current state; all other columns return the accumulated values since the last reset.''
     [''datid'', ''datname'']"

definition statDatabaseXactCommit :: "string \<Rightarrow> Desc" where
  "statDatabaseXactCommit ns = NewDesc
     (BuildFQName ns statDatabaseSubsystem ''xact_commit'')
     ''Number of transactions in this database that have been committed''
     [''datid'', ''datname'']"

definition statDatabaseXactRollback :: "string \<Rightarrow> Desc" where
  "statDatabaseXactRollback ns = NewDesc
     (BuildFQName ns statDatabaseSubsystem ''xact_rollback'')
     ''Number of transactions in this database that have been rolled back''
     [''datid'', ''datname'']"

definition statDatabaseBlksRead :: "string \<Rightarrow> Desc" where
  "statDatabaseBlksRead ns = NewDesc
     (BuildFQName ns statDatabaseSubsystem ''blks_read'')
     ''Number of disk blocks read in this database''
     [''datid'', ''datname'']"

definition statDatabaseBlksHit :: "string \<Rightarrow> Desc" where
  "statDatabaseBlksHit ns = NewDesc
     (BuildFQName ns statDatabaseSubsystem ''blks_hit'')
     (''Number of times disk blocks were found already in the buffer cache, so that a read was not necessary (this only includes hits in the PostgreSQL buffer cache, not the operating system'' @ [CHR 0x27] @ ''s file system cache)'')
     [''datid'', ''datname'']"

definition statDatabaseTupReturned :: "string \<Rightarrow> Desc" where
  "statDatabaseTupReturned ns = NewDesc
     (BuildFQName ns statDatabaseSubsystem ''tup_returned'')
     ''Number of rows returned by queries in this database''
     [''datid'', ''datname'']"

definition statDatabaseTupFetched :: "string \<Rightarrow> Desc" where
  "statDatabaseTupFetched ns = NewDesc
     (BuildFQName ns statDatabaseSubsystem ''tup_fetched'')
     ''Number of rows fetched by queries in this database''
     [''datid'', ''datname'']"

definition statDatabaseTupInserted :: "string \<Rightarrow> Desc" where
  "statDatabaseTupInserted ns = NewDesc
     (BuildFQName ns statDatabaseSubsystem ''tup_inserted'')
     ''Number of rows inserted by queries in this database''
     [''datid'', ''datname'']"

definition statDatabaseTupUpdated :: "string \<Rightarrow> Desc" where
  "statDatabaseTupUpdated ns = NewDesc
     (BuildFQName ns statDatabaseSubsystem ''tup_updated'')
     ''Number of rows updated by queries in this database''
     [''datid'', ''datname'']"

definition statDatabaseTupDeleted :: "string \<Rightarrow> Desc" where
  "statDatabaseTupDeleted ns = NewDesc
     (BuildFQName ns statDatabaseSubsystem ''tup_deleted'')
     ''Number of rows deleted by queries in this database''
     [''datid'', ''datname'']"

definition statDatabaseConflicts :: "string \<Rightarrow> Desc" where
  "statDatabaseConflicts ns = NewDesc
     (BuildFQName ns statDatabaseSubsystem ''conflicts'')
     ''Number of queries canceled due to conflicts with recovery in this database. (Conflicts occur only on standby servers; see pg_stat_database_conflicts for details.)''
     [''datid'', ''datname'']"

definition statDatabaseTempFiles :: "string \<Rightarrow> Desc" where
  "statDatabaseTempFiles ns = NewDesc
     (BuildFQName ns statDatabaseSubsystem ''temp_files'')
     ''Number of temporary files created by queries in this database. All temporary files are counted, regardless of why the temporary file was created (e.g., sorting or hashing), and regardless of the log_temp_files setting.''
     [''datid'', ''datname'']"

definition statDatabaseTempBytes :: "string \<Rightarrow> Desc" where
  "statDatabaseTempBytes ns = NewDesc
     (BuildFQName ns statDatabaseSubsystem ''temp_bytes'')
     ''Total amount of data written to temporary files by queries in this database. All temporary files are counted, regardless of why the temporary file was created, and regardless of the log_temp_files setting.''
     [''datid'', ''datname'']"

definition statDatabaseDeadlocks :: "string \<Rightarrow> Desc" where
  "statDatabaseDeadlocks ns = NewDesc
     (BuildFQName ns statDatabaseSubsystem ''deadlocks'')
     ''Number of deadlocks detected in this database''
     [''datid'', ''datname'']"

definition statDatabaseBlkReadTime :: "string \<Rightarrow> Desc" where
  "statDatabaseBlkReadTime ns = NewDesc
     (BuildFQName ns statDatabaseSubsystem ''blk_read_time'')
     ''Time spent reading data file blocks by backends in this database, in milliseconds''
     [''datid'', ''datname'']"

definition statDatabaseBlkWriteTime :: "string \<Rightarrow> Desc" where
  "statDatabaseBlkWriteTime ns = NewDesc
     (BuildFQName ns statDatabaseSubsystem ''blk_write_time'')
     ''Time spent writing data file blocks by backends in this database, in milliseconds''
     [''datid'', ''datname'']"

definition statDatabaseStatsReset :: "string \<Rightarrow> Desc" where
  "statDatabaseStatsReset ns = NewDesc
     (BuildFQName ns statDatabaseSubsystem ''stats_reset'')
     ''Time at which these statistics were last reset''
     [''datid'', ''datname'']"

definition statDatabaseActiveTime :: "string \<Rightarrow> Desc" where
  "statDatabaseActiveTime ns = NewDesc
     (BuildFQName ns statDatabaseSubsystem ''active_time_seconds_total'')
     ''Time spent executing SQL statements in this database, in seconds''
     [''datid'', ''datname'']"

subsection \<open>The query\<close>

text \<open>\<^verbatim>\<open>strings.Join\<close>: nothing for no element, the element itself for one, and otherwise
  the first element followed by the separator and the next element, for each next one.\<close>

fun Join :: "string list \<Rightarrow> string \<Rightarrow> string" where
  "Join [] sep = []"
| "Join [e] sep = e"
| "Join (e # es) sep = foldl (\<lambda>b s. b @ sep @ s) e es"

definition statDatabaseQuery :: "string list \<Rightarrow> string" where
  "statDatabaseQuery columns = ''SELECT '' @ Join columns '','' @ '' FROM pg_stat_database;''"

subsection \<open>The collector\<close>

text \<open>The variables one iteration of the loop declares and passes to \<^verbatim>\<open>rows.Scan\<close>.\<close>

record scan_vars =
  datid :: NullString
  datname :: NullString
  numBackends :: NullFloat64
  xactCommit :: NullFloat64
  xactRollback :: NullFloat64
  blksRead :: NullFloat64
  blksHit :: NullFloat64
  tupReturned :: NullFloat64
  tupFetched :: NullFloat64
  tupInserted :: NullFloat64
  tupUpdated :: NullFloat64
  tupDeleted :: NullFloat64
  conflicts :: NullFloat64
  tempFiles :: NullFloat64
  tempBytes :: NullFloat64
  deadlocks :: NullFloat64
  blkReadTime :: NullFloat64
  blkWriteTime :: NullFloat64
  activeTime :: NullFloat64
  statsReset :: NullTime

text \<open>A row of the result set is what \<^verbatim>\<open>rows.Scan\<close> does with it: the error it returns, or
  the values it stores in the variables. A result set is the list of its rows, in the
  order \<^verbatim>\<open>rows.Next\<close> visits them; the database is what \<^verbatim>\<open>QueryContext\<close> returns for a
  query text.\<close>

type_synonym sql_row = "error + scan_vars"

type_synonym sql_db = "string \<Rightarrow> error + sql_row list"

record pg_instance =
  version :: Version
  getDB :: sql_db

text \<open>The channel, the logger, and the query texts passed to \<^verbatim>\<open>QueryContext\<close>.\<close>

record collector_out =
  ch :: "Metric list"
  debugLog :: "string list"
  queried :: "string list"

definition send :: "Metric \<Rightarrow> collector_out \<Rightarrow> collector_out" where
  "send m st = st\<lparr>ch := ch st @ [m]\<rparr>"

definition Debug :: "string \<Rightarrow> collector_out \<Rightarrow> collector_out" where
  "Debug msg st = st\<lparr>debugLog := debugLog st @ [msg]\<rparr>"

definition QueryContext :: "sql_db \<Rightarrow> string \<Rightarrow> collector_out \<Rightarrow> (error + sql_row list) \<times> collector_out" where
  "QueryContext db query st = (db query, st\<lparr>queried := queried st @ [query]\<rparr>)"

text \<open>A statement \<^verbatim>\<open>ch <- prometheus.MustNewConstMetric(...)\<close> in a run that is a state and
  the flag of a panic under way: nothing happens once a panic is under way; a panic of
  \<^verbatim>\<open>MustNewConstMetric\<close> sends nothing and sets the flag; otherwise the metric is sent.\<close>

definition emit :: "Metric option \<Rightarrow> collector_out \<times> bool \<Rightarrow> collector_out \<times> bool" where
  "emit m s =
     (if snd s then s
      else (case m of None \<Rightarrow> (fst s, True) | Some x \<Rightarrow> (send x (fst s), False)))"

text \<open>How a call ends: it returns an error or \<^verbatim>\<open>nil\<close>, or it panics.\<close>

datatype outcome = Return "error option" | Panic

text \<open>The column list of \<^verbatim>\<open>Update\<close>: the nineteen columns of the literal, and
  \<^verbatim>\<open>active_time\<close> appended when the version is at least 14.0.0.\<close>

definition baseColumns :: "string list" where
  "baseColumns =
     [''datid'', ''datname'', ''numbackends'', ''xact_commit'', ''xact_rollback'', ''blks_read'',
      ''blks_hit'', ''tup_returned'', ''tup_fetched'', ''tup_inserted'', ''tup_updated'',
      ''tup_deleted'', ''conflicts'', ''temp_files'', ''temp_bytes'', ''deadlocks'',
      ''blk_read_time'', ''blk_write_time'', ''stats_reset'']"

definition activeTimeAvail :: "Version \<Rightarrow> bool" where
  "activeTimeAvail v = GTE v version_14_0_0"

definition columns :: "Version \<Rightarrow> string list" where
  "columns v = (if activeTimeAvail v then baseColumns @ [''active_time''] else baseColumns)"

text \<open>\<^verbatim>\<open>rows.Scan(r...)\<close>: the pointer to \<^verbatim>\<open>activeTime\<close> is among the destinations only
  when the column was requested; otherwise the variable keeps its zero value.\<close>

definition Scan :: "bool \<Rightarrow> sql_row \<Rightarrow> error + scan_vars" where
  "Scan avail row =
     (case row of
        Inl err \<Rightarrow> Inl err
      | Inr r \<Rightarrow> Inr (if avail then r else r\<lparr>activeTime := \<lparr>Float64 = 0, Float64_Valid = False\<rparr>\<rparr>))"

text \<open>The body of the loop after a successful \<^verbatim>\<open>Scan\<close>: the state after the iteration,
  and whether it ended in a panic. Each \<^verbatim>\<open>continue\<close> ends the iteration with the state it
  has then.\<close>

definition Update_row ::
  "string \<Rightarrow> bool \<Rightarrow> scan_vars \<Rightarrow> collector_out \<Rightarrow> collector_out \<times> bool" where
  "Update_row ns avail r st =
     (if \<not> String_Valid (datid r) then
        (Debug ''Skipping collecting metric because it has no datid'' st, False)
      else if \<not> String_Valid (datname r) then
        (Debug ''Skipping collecting metric because it has no datname'' st, False)
      else if \<not> Float64_Valid (numBackends r) then
        (Debug ''Skipping collecting metric because it has no numbackends'' st, False)
      else if \<not> Float64_Valid (xactCommit r) then
        (Debug ''Skipping collecting metric because it has no xact_commit'' st, False)
      else if \<not> Float64_Valid (xactRollback r) then
        (Debug ''Skipping collecting metric because it has no xact_rollback'' st, False)
      else if \<not> Float64_Valid (blksRead r) then
        (Debug ''Skipping collecting metric because it has no blks_read'' st, False)
      else if \<not> Float64_Valid (blksHit r) then
        (Debug ''Skipping collecting metric because it has no blks_hit'' st, False)
      else if \<not> Float64_Valid (tupReturned r) then
        (Debug ''Skipping collecting metric because it has no tup_returned'' st, False)
      else if \<not> Float64_Valid (tupFetched r) then
        (Debug ''Skipping collecting metric because it has no tup_fetched'' st, False)
      else if \<not> Float64_Valid (tupInserted r) then
        (Debug ''Skipping collecting metric because it has no tup_inserted'' st, False)
      else if \<not> Float64_Valid (tupUpdated r) then
        (Debug ''Skipping collecting metric because it has no tup_updated'' st, False)
      else if \<not> Float64_Valid (tupDeleted r) then
        (Debug ''Skipping collecting metric because it has no tup_deleted'' st, False)
      else if \<not> Float64_Valid (conflicts r) then
        (Debug ''Skipping collecting metric because it has no conflicts'' st, False)
      else if \<not> Float64_Valid (tempFiles r) then
        (Debug ''Skipping collecting metric because it has no temp_files'' st, False)
      else if \<not> Float64_Valid (tempBytes r) then
        (Debug ''Skipping collecting metric because it has no temp_bytes'' st, False)
      else if \<not> Float64_Valid (deadlocks r) then
        (Debug ''Skipping collecting metric because it has no deadlocks'' st, False)
      else if \<not> Float64_Valid (blkReadTime r) then
        (Debug ''Skipping collecting metric because it has no blk_read_time'' st, False)
      else if \<not> Float64_Valid (blkWriteTime r) then
        (Debug ''Skipping collecting metric because it has no blk_write_time'' st, False)
      else if avail \<and> \<not> Float64_Valid (activeTime r) then
        (Debug ''Skipping collecting metric because it has no active_time'' st, False)
      else
        (let statsResetMetric = 0;
             st = (if \<not> Time_Valid (statsReset r)
                   then Debug ''No metric for stats_reset, will collect 0 instead'' st else st);
             statsResetMetric =
               (if Time_Valid (statsReset r) then real_of_int (Unix (Time_val (statsReset r)))
                else statsResetMetric);
             labels = [String_val (datid r), String_val (datname r)];
             s = (st, False);
             s = emit (MustNewConstMetric (statDatabaseNumbackends ns) GaugeValue (Float64 (numBackends r)) labels) s;
             s = emit (MustNewConstMetric (statDatabaseXactCommit ns) CounterValue (Float64 (xactCommit r)) labels) s;
             s = emit (MustNewConstMetric (statDatabaseXactRollback ns) CounterValue (Float64 (xactRollback r)) labels) s;
             s = emit (MustNewConstMetric (statDatabaseBlksRead ns) CounterValue (Float64 (blksRead r)) labels) s;
             s = emit (MustNewConstMetric (statDatabaseBlksHit ns) CounterValue (Float64 (blksHit r)) labels) s;
             s = emit (MustNewConstMetric (statDatabaseTupReturned ns) CounterValue (Float64 (tupReturned r)) labels) s;
             s = emit (MustNewConstMetric (statDatabaseTupFetched ns) CounterValue (Float64 (tupFetched r)) labels) s;
             s = emit (MustNewConstMetric (statDatabaseTupInserted ns) CounterValue (Float64 (tupInserted r)) labels) s;
             s = emit (MustNewConstMetric (statDatabaseTupUpdated ns) CounterValue (Float64 (tupUpdated r)) labels) s;
             s = emit (MustNewConstMetric (statDatabaseTupDeleted ns) CounterValue (Float64 (tupDeleted r)) labels) s;
             s = emit (MustNewConstMetric (statDatabaseConflicts ns) CounterValue (Float64 (conflicts r)) labels) s;
             s = emit (MustNewConstMetric (statDatabaseTempFiles ns) CounterValue (Float64 (tempFiles r)) labels) s;
             s = emit (MustNewConstMetric (statDatabaseTempBytes ns) CounterValue (Float64 (tempBytes r)) labels) s;
             s = emit (MustNewConstMetric (statDatabaseDeadlocks ns) CounterValue (Float64 (deadlocks r)) labels) s;
             s = emit (MustNewConstMetric (statDatabaseBlkReadTime ns) CounterValue (Float64 (blkReadTime r)) labels) s;
             s = emit (MustNewConstMetric (statDatabaseBlkWriteTime ns) CounterValue (Float64 (blkWriteTime r)) labels) s;
             s = emit (MustNewConstMetric (statDatabaseStatsReset ns) CounterValue statsResetMetric labels) s;
             s = (if avail
                  then emit (MustNewConstMetric (statDatabaseActiveTime ns) CounterValue
                               (Float64 (activeTime r) / 1000) labels) s
                  else s)
         in s))"

text \<open>The loop \<^verbatim>\<open>for rows.Next()\<close>: a failing \<^verbatim>\<open>Scan\<close> returns its error at once, with what
  the channel has received so far; a panic in the body ends the call; the end of the rows
  returns \<^verbatim>\<open>nil\<close>.\<close>

fun Update_rows ::
  "string \<Rightarrow> bool \<Rightarrow> sql_row list \<Rightarrow> collector_out \<Rightarrow> collector_out \<times> outcome" where
  "Update_rows ns avail [] st = (st, Return None)"
| "Update_rows ns avail (row # rows) st =
     (case Scan avail row of
        Inl err \<Rightarrow> (st, Return (Some err))
      | Inr r \<Rightarrow>
          (case Update_row ns avail r st of
             (st', True) \<Rightarrow> (st', Panic)
           | (st', False) \<Rightarrow> Update_rows ns avail rows st'))"

definition Update ::
  "string \<Rightarrow> pg_instance \<Rightarrow> collector_out \<Rightarrow> collector_out \<times> outcome" where
  "Update ns inst st =
     (let db = getDB inst;
          avail = activeTimeAvail (version inst)
      in case QueryContext db (statDatabaseQuery (columns (version inst))) st of
           (Inl err, st') \<Rightarrow> (st', Return (Some err))
         | (Inr rows, st') \<Rightarrow> Update_rows ns avail rows st')"

text \<open>What one scanned row adds to the channel and whether it panics; what a whole call
  sends and how it ends.\<close>

definition row_emitted :: "string \<Rightarrow> bool \<Rightarrow> scan_vars \<Rightarrow> Metric list" where
  "row_emitted ns avail r =
     ch (fst (Update_row ns avail r \<lparr>ch = [], debugLog = [], queried = []\<rparr>))"

definition row_panics :: "string \<Rightarrow> bool \<Rightarrow> scan_vars \<Rightarrow> bool" where
  "row_panics ns avail r = snd (Update_row ns avail r \<lparr>ch = [], debugLog = [], queried = []\<rparr>)"

definition emitted :: "string \<Rightarrow> pg_instance \<Rightarrow> Metric list" where
  "emitted ns inst = ch (fst (Update ns inst \<lparr>ch = [], debugLog = [], queried = []\<rparr>))"

definition returned :: "string \<Rightarrow> pg_instance \<Rightarrow> outcome" where
  "returned ns inst = snd (Update ns inst \<lparr>ch = [], debugLog = [], queried = []\<rparr>)"


subsection \<open>Notions of the specification\<close>

text \<open>The identity columns of a row are present; the numeric columns the loop checks are
  present (\<^verbatim>\<open>active_time\<close> among them only when it was requested); a row passes every
  check of the loop body when both hold.\<close>

definition identity_present :: "scan_vars \<Rightarrow> bool" where
  "identity_present r = (String_Valid (datid r) \<and> String_Valid (datname r))"

definition numeric_present :: "bool \<Rightarrow> scan_vars \<Rightarrow> bool" where
  "numeric_present avail r =
     (Float64_Valid (numBackends r) \<and>
      Float64_Valid (xactCommit r) \<and>
      Float64_Valid (xactRollback r) \<and>
      Float64_Valid (blksRead r) \<and>
      Float64_Valid (blksHit r) \<and>
      Float64_Valid (tupReturned r) \<and>
      Float64_Valid (tupFetched r) \<and>
      Float64_Valid (tupInserted r) \<and>
      Float64_Valid (tupUpdated r) \<and>
      Float64_Valid (tupDeleted r) \<and>
      Float64_Valid (conflicts r) \<and>
      Float64_Valid (tempFiles r) \<and>
      Float64_Valid (tempBytes r) \<and>
      Float64_Valid (deadlocks r) \<and>
      Float64_Valid (blkReadTime r) \<and>
      Float64_Valid (blkWriteTime r) \<and>
      (avail \<longrightarrow> Float64_Valid (activeTime r)))"

definition reaches_emission :: "bool \<Rightarrow> scan_vars \<Rightarrow> bool" where
  "reaches_emission avail r = (identity_present r \<and> numeric_present avail r)"

text \<open>The descriptors in the order of their declaration, \<^verbatim>\<open>active_time\<close> last and only
  when it is requested.\<close>

definition activeCatalog :: "string \<Rightarrow> bool \<Rightarrow> Desc list" where
  "activeCatalog ns avail =
     [statDatabaseNumbackends ns, statDatabaseXactCommit ns, statDatabaseXactRollback ns,
      statDatabaseBlksRead ns, statDatabaseBlksHit ns, statDatabaseTupReturned ns,
      statDatabaseTupFetched ns, statDatabaseTupInserted ns, statDatabaseTupUpdated ns,
      statDatabaseTupDeleted ns, statDatabaseConflicts ns, statDatabaseTempFiles ns,
      statDatabaseTempBytes ns, statDatabaseDeadlocks ns, statDatabaseBlkReadTime ns,
      statDatabaseBlkWriteTime ns, statDatabaseStatsReset ns] @
     (if avail then [statDatabaseActiveTime ns] else [])"

text \<open>The label values of a row.\<close>

definition row_labels :: "scan_vars \<Rightarrow> string list" where
  "row_labels r = [String_val (datid r), String_val (datname r)]"

text \<open>What keeps \<^verbatim>\<open>MustNewConstMetric\<close> from a panic: label values that are valid UTF-8, and
  a namespace with which the names of the descriptors are metric names (no namespace, or a
  namespace that is a metric name itself).\<close>

definition labels_valid :: "scan_vars \<Rightarrow> bool" where
  "labels_valid r = (ValidString (String_val (datid r)) \<and> ValidString (String_val (datname r)))"

definition namespace_valid :: "string \<Rightarrow> bool" where
  "namespace_valid ns = (ns = [] \<or> IsValidMetricName ns)"

definition row_safe :: "string \<Rightarrow> scan_vars \<Rightarrow> bool" where
  "row_safe ns r = (namespace_valid ns \<and> labels_valid r)"

text \<open>Reading a query text back: after the seven characters of \<^verbatim>\<open>SELECT\<close> and its blank,
  the select list runs up to the next blank and its items are separated by commas. A
  plain name has neither a comma nor a blank in it.\<close>

fun split_on :: "char \<Rightarrow> string \<Rightarrow> string list" where
  "split_on c [] = [[]]"
| "split_on c (x # xs) =
     (if x = c then [] # split_on c xs
      else (case split_on c xs of [] \<Rightarrow> [[x]] | y # ys \<Rightarrow> (x # y) # ys))"

definition select_list :: "string \<Rightarrow> string list" where
  "select_list q = split_on (CHR '','') (takeWhile (\<lambda>x. x \<noteq> CHR '' '') (drop 7 q))"

definition after_select_list :: "string \<Rightarrow> string" where
  "after_select_list q = dropWhile (\<lambda>x. x \<noteq> CHR '' '') (drop 7 q)"

definition plain_name :: "string \<Rightarrow> bool" where
  "plain_name c = (CHR '','' \<notin> set c \<and> CHR '' '' \<notin> set c)"

text \<open>The columns of a column list that are not among the unconditional ones.\<close>

definition version_gated :: "string list \<Rightarrow> string list" where
  "version_gated cs = filter (\<lambda>c. c \<notin> set baseColumns) cs"

subsection \<open>Example inputs\<close>

definition version_13_0_0 :: Version where
  "version_13_0_0 = \<lparr>Major = 13, Minor = 0, Patch = 0, Pre = [], Build = []\<rparr>"

definition version_14_2_0 :: Version where
  "version_14_2_0 = \<lparr>Major = 14, Minor = 2, Patch = 0, Pre = [], Build = []\<rparr>"

definition present :: "real \<Rightarrow> NullFloat64" where
  "present x = \<lparr>Float64 = x, Float64_Valid = True\<rparr>"

definition absent :: NullFloat64 where
  "absent = \<lparr>Float64 = 0, Float64_Valid = False\<rparr>"

definition example_row :: scan_vars where
  "example_row =
     \<lparr>datid = \<lparr>String_val = ''12345'', String_Valid = True\<rparr>,
      datname = \<lparr>String_val = ''appdb'', String_Valid = True\<rparr>,
      numBackends = present 3, xactCommit = present 100, xactRollback = present 2,
      blksRead = present 50, blksHit = present 900, tupReturned = present 70,
      tupFetched = present 60, tupInserted = present 10, tupUpdated = present 5,
      tupDeleted = present 1, conflicts = present 0, tempFiles = present 4,
      tempBytes = present 8192, deadlocks = present 0, blkReadTime = present 12,
      blkWriteTime = present 7, activeTime = present 4200,
      statsReset = \<lparr>Time_val = Time 1700000000, Time_Valid = True\<rparr>\<rparr>"

text \<open>An instance whose database answers every query with the given result.\<close>

definition instance_with :: "Version \<Rightarrow> error + sql_row list \<Rightarrow> pg_instance" where
  "instance_with v res = \<lparr>version = v, getDB = (\<lambda>q. res)\<rparr>"

definition empty_out :: collector_out where
  "empty_out = \<lparr>ch = [], debugLog = [], queried = []\<rparr>"

text \<open>A database that answers one query text only, the two query texts of the collector,
  and an instance whose database answers only the query text of its version.\<close>

definition answering :: "string \<Rightarrow> error + sql_row list \<Rightarrow> sql_db" where
  "answering query res = (\<lambda>q. if q = query then res else Inl (Error ''unknown query''))"

definition query_19 :: string where
  "query_19 = ''SELECT datid,datname,numbackends,xact_commit,xact_rollback,blks_read,blks_hit,tup_returned,tup_fetched,tup_inserted,tup_updated,tup_deleted,conflicts,temp_files,temp_bytes,deadlocks,blk_read_time,blk_write_time,stats_reset FROM pg_stat_database;''"

definition query_20 :: string where
  "query_20 = ''SELECT datid,datname,numbackends,xact_commit,xact_rollback,blks_read,blks_hit,tup_returned,tup_fetched,tup_inserted,tup_updated,tup_deleted,conflicts,temp_files,temp_bytes,deadlocks,blk_read_time,blk_write_time,stats_reset,active_time FROM pg_stat_database;''"

definition pg13 :: "error + sql_row list \<Rightarrow> pg_instance" where
  "pg13 res = \<lparr>version = version_13_0_0, getDB = answering query_19 res\<rparr>"

definition pg14 :: "error + sql_row list \<Rightarrow> pg_instance" where
  "pg14 res = \<lparr>version = version_14_2_0, getDB = answering query_20 res\<rparr>"


text \<open>Variants of the example row: without a name, without a deadlock count, without a
  reset timestamp, and with the raw active time 2500.\<close>

definition no_datname_row :: scan_vars where
  "no_datname_row = example_row\<lparr>datname := \<lparr>String_val = [], String_Valid = False\<rparr>\<rparr>"

definition no_deadlocks_row :: scan_vars where
  "no_deadlocks_row = example_row\<lparr>deadlocks := absent\<rparr>"

definition no_stats_reset_row :: scan_vars where
  "no_stats_reset_row = example_row\<lparr>statsReset := \<lparr>Time_val = Time 0, Time_Valid = False\<rparr>\<rparr>"

definition raw_2500_row :: scan_vars where
  "raw_2500_row = example_row\<lparr>activeTime := present 2500\<rparr>"

text \<open>The example row with a name that is not valid UTF-8 (the single byte 0xFF).\<close>

definition bad_name_row :: scan_vars where
  "bad_name_row = example_row\<lparr>datname := \<lparr>String_val = [CHR 0xFF], String_Valid = True\<rparr>\<rparr>"

definition bad_name_no_reset_row :: scan_vars where
  "bad_name_no_reset_row = bad_name_row\<lparr>statsReset := \<lparr>Time_val = Time 0, Time_Valid = False\<rparr>\<rparr>"

section \<open>Properties\<close>

subsection \<open>The channel, the log and the queries\<close>

lemma ch_send: "ch (send m st) = ch st @ [m]"
  by (simp add: send_def)

lemma debugLog_send: "debugLog (send m st) = debugLog st"
  by (simp add: send_def)

lemma queried_send: "queried (send m st) = queried st"
  by (simp add: send_def)

lemma ch_Debug: "ch (Debug msg st) = ch st"
  by (simp add: Debug_def)

lemma debugLog_Debug: "debugLog (Debug msg st) = debugLog st @ [msg]"
  by (simp add: Debug_def)

lemma queried_Debug: "queried (Debug msg st) = queried st"
  by (simp add: Debug_def)

lemma emit_Some: "emit (Some x) (st, False) = (send x st, False)"
  by (simp add: emit_def)

lemma emit_None: "emit None (st, False) = (st, True)"
  by (simp add: emit_def)

lemma emit_panicking: "emit m (st, True) = (st, True)"
  by (simp add: emit_def)

lemma queried_emit: "queried (fst (emit m s)) = queried (fst s)"
  by (cases s; cases m) (simp_all add: emit_def queried_send)

subsection \<open>Names, descriptors and metrics\<close>

lemmas desc_defs =
  statDatabaseNumbackends_def statDatabaseXactCommit_def statDatabaseXactRollback_def
  statDatabaseBlksRead_def statDatabaseBlksHit_def statDatabaseTupReturned_def
  statDatabaseTupFetched_def statDatabaseTupInserted_def statDatabaseTupUpdated_def
  statDatabaseTupDeleted_def statDatabaseConflicts_def statDatabaseTempFiles_def
  statDatabaseTempBytes_def statDatabaseDeadlocks_def statDatabaseBlkReadTime_def
  statDatabaseBlkWriteTime_def statDatabaseStatsReset_def statDatabaseActiveTime_def

lemma list_all_enumerate_later:
  "0 < k \<Longrightarrow> list_all (\<lambda>(i, b). isValidLegacyRune b i) (enumerate k xs) =
             list_all (\<lambda>b. isValidLegacyRune b (Suc 0)) xs"
  by (induction xs arbitrary: k) (simp_all add: isValidLegacyRune_def)

lemma IsValidMetricName_append:
  "xs \<noteq> [] \<Longrightarrow> IsValidMetricName (xs @ ys) =
     (IsValidMetricName xs \<and> list_all (\<lambda>b. isValidLegacyRune b (Suc 0)) ys)"
  by (simp add: IsValidMetricName_def enumerate_append_eq list_all_enumerate_later)

lemma IsValidMetricName_fq:
  "name \<noteq> [] \<Longrightarrow> list_all (\<lambda>b. isValidLegacyRune b (Suc 0)) name \<Longrightarrow>
   IsValidMetricName (BuildFQName ns statDatabaseSubsystem name) = namespace_valid ns"
proof (cases "ns = []")
  case True
  assume "name \<noteq> []" and "list_all (\<lambda>b. isValidLegacyRune b (Suc 0)) name"
  then show ?thesis
    using IsValidMetricName_append [of "''stat_database_''" name]
    by (simp add: True BuildFQName_def statDatabaseSubsystem_def namespace_valid_def)
      (simp add: IsValidMetricName_def isValidLegacyRune_def)
next
  case False
  assume "name \<noteq> []" and "list_all (\<lambda>b. isValidLegacyRune b (Suc 0)) name"
  then show ?thesis
    using IsValidMetricName_append [OF False, of "''_stat_database_'' @ name"]
    by (simp add: False BuildFQName_def statDatabaseSubsystem_def namespace_valid_def)
      (simp add: isValidLegacyRune_def)
qed

lemma checkLabelName_labels: "list_all checkLabelName [''datid'', ''datname'']"
  by (simp add: checkLabelName_def LabelName_IsValid_def)

lemma descErr_NewDesc:
  "name \<noteq> [] \<Longrightarrow> list_all (\<lambda>b. isValidLegacyRune b (Suc 0)) name \<Longrightarrow>
   descErr (NewDesc (BuildFQName ns statDatabaseSubsystem name) h [''datid'', ''datname'']) = None
     \<longleftrightarrow> namespace_valid ns"
  using checkLabelName_labels by (simp add: NewDesc_def IsValidMetricName_fq)

lemma descErr_catalog:
  "descErr (statDatabaseNumbackends ns) = None \<longleftrightarrow> namespace_valid ns"
  "descErr (statDatabaseXactCommit ns) = None \<longleftrightarrow> namespace_valid ns"
  "descErr (statDatabaseXactRollback ns) = None \<longleftrightarrow> namespace_valid ns"
  "descErr (statDatabaseBlksRead ns) = None \<longleftrightarrow> namespace_valid ns"
  "descErr (statDatabaseBlksHit ns) = None \<longleftrightarrow> namespace_valid ns"
  "descErr (statDatabaseTupReturned ns) = None \<longleftrightarrow> namespace_valid ns"
  "descErr (statDatabaseTupFetched ns) = None \<longleftrightarrow> namespace_valid ns"
  "descErr (statDatabaseTupInserted ns) = None \<longleftrightarrow> namespace_valid ns"
  "descErr (statDatabaseTupUpdated ns) = None \<longleftrightarrow> namespace_valid ns"
  "descErr (statDatabaseTupDeleted ns) = None \<longleftrightarrow> namespace_valid ns"
  "descErr (statDatabaseConflicts ns) = None \<longleftrightarrow> namespace_valid ns"
  "descErr (statDatabaseTempFiles ns) = None \<longleftrightarrow> namespace_valid ns"
  "descErr (statDatabaseTempBytes ns) = None \<longleftrightarrow> namespace_valid ns"
  "descErr (statDatabaseDeadlocks ns) = None \<longleftrightarrow> namespace_valid ns"
  "descErr (statDatabaseBlkReadTime ns) = None \<longleftrightarrow> namespace_valid ns"
  "descErr (statDatabaseBlkWriteTime ns) = None \<longleftrightarrow> namespace_valid ns"
  "descErr (statDatabaseStatsReset ns) = None \<longleftrightarrow> namespace_valid ns"
  "descErr (statDatabaseActiveTime ns) = None \<longleftrightarrow> namespace_valid ns"
  unfolding desc_defs by (subst descErr_NewDesc; simp add: isValidLegacyRune_def)+

lemma variableLabels_catalog:
  "variableLabels (statDatabaseNumbackends ns) = [''datid'', ''datname'']"
  "variableLabels (statDatabaseXactCommit ns) = [''datid'', ''datname'']"
  "variableLabels (statDatabaseXactRollback ns) = [''datid'', ''datname'']"
  "variableLabels (statDatabaseBlksRead ns) = [''datid'', ''datname'']"
  "variableLabels (statDatabaseBlksHit ns) = [''datid'', ''datname'']"
  "variableLabels (statDatabaseTupReturned ns) = [''datid'', ''datname'']"
  "variableLabels (statDatabaseTupFetched ns) = [''datid'', ''datname'']"
  "variableLabels (statDatabaseTupInserted ns) = [''datid'', ''datname'']"
  "variableLabels (statDatabaseTupUpdated ns) = [''datid'', ''datname'']"
  "variableLabels (statDatabaseTupDeleted ns) = [''datid'', ''datname'']"
  "variableLabels (statDatabaseConflicts ns) = [''datid'', ''datname'']"
  "variableLabels (statDatabaseTempFiles ns) = [''datid'', ''datname'']"
  "variableLabels (statDatabaseTempBytes ns) = [''datid'', ''datname'']"
  "variableLabels (statDatabaseDeadlocks ns) = [''datid'', ''datname'']"
  "variableLabels (statDatabaseBlkReadTime ns) = [''datid'', ''datname'']"
  "variableLabels (statDatabaseBlkWriteTime ns) = [''datid'', ''datname'']"
  "variableLabels (statDatabaseStatsReset ns) = [''datid'', ''datname'']"
  "variableLabels (statDatabaseActiveTime ns) = [''datid'', ''datname'']"
  unfolding desc_defs by (simp_all add: NewDesc_def)

lemma MustNewConstMetric_eq:
  "MustNewConstMetric d t v ls =
     (if descErr d = None \<and> length ls = length (variableLabels d) \<and> list_all ValidString ls
      then Some (constMetric d t v ls) else None)"
  by (cases "descErr d") (simp_all add: MustNewConstMetric_def NewConstMetric_def)

lemma MustNewConstMetric_catalog:
  "MustNewConstMetric (statDatabaseNumbackends ns) t v [String_val (datid r), String_val (datname r)] =
     (if row_safe ns r
      then Some (constMetric (statDatabaseNumbackends ns) t v [String_val (datid r), String_val (datname r)]) else None)"
  "MustNewConstMetric (statDatabaseXactCommit ns) t v [String_val (datid r), String_val (datname r)] =
     (if row_safe ns r
      then Some (constMetric (statDatabaseXactCommit ns) t v [String_val (datid r), String_val (datname r)]) else None)"
  "MustNewConstMetric (statDatabaseXactRollback ns) t v [String_val (datid r), String_val (datname r)] =
     (if row_safe ns r
      then Some (constMetric (statDatabaseXactRollback ns) t v [String_val (datid r), String_val (datname r)]) else None)"
  "MustNewConstMetric (statDatabaseBlksRead ns) t v [String_val (datid r), String_val (datname r)] =
     (if row_safe ns r
      then Some (constMetric (statDatabaseBlksRead ns) t v [String_val (datid r), String_val (datname r)]) else None)"
  "MustNewConstMetric (statDatabaseBlksHit ns) t v [String_val (datid r), String_val (datname r)] =
     (if row_safe ns r
      then Some (constMetric (statDatabaseBlksHit ns) t v [String_val (datid r), String_val (datname r)]) else None)"
  "MustNewConstMetric (statDatabaseTupReturned ns) t v [String_val (datid r), String_val (datname r)] =
     (if row_safe ns r
      then Some (constMetric (statDatabaseTupReturned ns) t v [String_val (datid r), String_val (datname r)]) else None)"
  "MustNewConstMetric (statDatabaseTupFetched ns) t v [String_val (datid r), String_val (datname r)] =
     (if row_safe ns r
      then Some (constMetric (statDatabaseTupFetched ns) t v [String_val (datid r), String_val (datname r)]) else None)"
  "MustNewConstMetric (statDatabaseTupInserted ns) t v [String_val (datid r), String_val (datname r)] =
     (if row_safe ns r
      then Some (constMetric (statDatabaseTupInserted ns) t v [String_val (datid r), String_val (datname r)]) else None)"
  "MustNewConstMetric (statDatabaseTupUpdated ns) t v [String_val (datid r), String_val (datname r)] =
     (if row_safe ns r
      then Some (constMetric (statDatabaseTupUpdated ns) t v [String_val (datid r), String_val (datname r)]) else None)"
  "MustNewConstMetric (statDatabaseTupDeleted ns) t v [String_val (datid r), String_val (datname r)] =
     (if row_safe ns r
      then Some (constMetric (statDatabaseTupDeleted ns) t v [String_val (datid r), String_val (datname r)]) else None)"
  "MustNewConstMetric (statDatabaseConflicts ns) t v [String_val (datid r), String_val (datname r)] =
     (if row_safe ns r
      then Some (constMetric (statDatabaseConflicts ns) t v [String_val (datid r), String_val (datname r)]) else None)"
  "MustNewConstMetric (statDatabaseTempFiles ns) t v [String_val (datid r), String_val (datname r)] =
     (if row_safe ns r
      then Some (constMetric (statDatabaseTempFiles ns) t v [String_val (datid r), String_val (datname r)]) else None)"
  "MustNewConstMetric (statDatabaseTempBytes ns) t v [String_val (datid r), String_val (datname r)] =
     (if row_safe ns r
      then Some (constMetric (statDatabaseTempBytes ns) t v [String_val (datid r), String_val (datname r)]) else None)"
  "MustNewConstMetric (statDatabaseDeadlocks ns) t v [String_val (datid r), String_val (datname r)] =
     (if row_safe ns r
      then Some (constMetric (statDatabaseDeadlocks ns) t v [String_val (datid r), String_val (datname r)]) else None)"
  "MustNewConstMetric (statDatabaseBlkReadTime ns) t v [String_val (datid r), String_val (datname r)] =
     (if row_safe ns r
      then Some (constMetric (statDatabaseBlkReadTime ns) t v [String_val (datid r), String_val (datname r)]) else None)"
  "MustNewConstMetric (statDatabaseBlkWriteTime ns) t v [String_val (datid r), String_val (datname r)] =
     (if row_safe ns r
      then Some (constMetric (statDatabaseBlkWriteTime ns) t v [String_val (datid r), String_val (datname r)]) else None)"
  "MustNewConstMetric (statDatabaseStatsReset ns) t v [String_val (datid r), String_val (datname r)] =
     (if row_safe ns r
      then Some (constMetric (statDatabaseStatsReset ns) t v [String_val (datid r), String_val (datname r)]) else None)"
  "MustNewConstMetric (statDatabaseActiveTime ns) t v [String_val (datid r), String_val (datname r)] =
     (if row_safe ns r
      then Some (constMetric (statDatabaseActiveTime ns) t v [String_val (datid r), String_val (datname r)]) else None)"
  by (simp_all add: MustNewConstMetric_eq variableLabels_catalog descErr_catalog row_safe_def
      labels_valid_def)

subsection \<open>One row\<close>

lemma Update_row_skip:
  "\<not> reaches_emission avail r \<Longrightarrow>
   ch (fst (Update_row ns avail r st)) = ch st \<and> \<not> snd (Update_row ns avail r st)"
  unfolding reaches_emission_def identity_present_def numeric_present_def Update_row_def
  by (simp add: ch_Debug)

lemma Update_row_panic:
  "reaches_emission avail r \<Longrightarrow> \<not> row_safe ns r \<Longrightarrow>
   ch (fst (Update_row ns avail r st)) = ch st \<and> snd (Update_row ns avail r st)"
  unfolding reaches_emission_def identity_present_def numeric_present_def Update_row_def
  by (simp add: ch_Debug Let_def MustNewConstMetric_catalog emit_None emit_panicking)

lemma Update_row_ok:
  "reaches_emission avail r \<Longrightarrow> row_safe ns r \<Longrightarrow>
   ch (fst (Update_row ns avail r st)) = ch st @
     (let ls = [String_val (datid r), String_val (datname r)] in
       [constMetric (statDatabaseNumbackends ns) GaugeValue (Float64 (numBackends r)) ls,
        constMetric (statDatabaseXactCommit ns) CounterValue (Float64 (xactCommit r)) ls,
        constMetric (statDatabaseXactRollback ns) CounterValue (Float64 (xactRollback r)) ls,
        constMetric (statDatabaseBlksRead ns) CounterValue (Float64 (blksRead r)) ls,
        constMetric (statDatabaseBlksHit ns) CounterValue (Float64 (blksHit r)) ls,
        constMetric (statDatabaseTupReturned ns) CounterValue (Float64 (tupReturned r)) ls,
        constMetric (statDatabaseTupFetched ns) CounterValue (Float64 (tupFetched r)) ls,
        constMetric (statDatabaseTupInserted ns) CounterValue (Float64 (tupInserted r)) ls,
        constMetric (statDatabaseTupUpdated ns) CounterValue (Float64 (tupUpdated r)) ls,
        constMetric (statDatabaseTupDeleted ns) CounterValue (Float64 (tupDeleted r)) ls,
        constMetric (statDatabaseConflicts ns) CounterValue (Float64 (conflicts r)) ls,
        constMetric (statDatabaseTempFiles ns) CounterValue (Float64 (tempFiles r)) ls,
        constMetric (statDatabaseTempBytes ns) CounterValue (Float64 (tempBytes r)) ls,
        constMetric (statDatabaseDeadlocks ns) CounterValue (Float64 (deadlocks r)) ls,
        constMetric (statDatabaseBlkReadTime ns) CounterValue (Float64 (blkReadTime r)) ls,
        constMetric (statDatabaseBlkWriteTime ns) CounterValue (Float64 (blkWriteTime r)) ls,
        constMetric (statDatabaseStatsReset ns) CounterValue
          (if Time_Valid (statsReset r) then real_of_int (Unix (Time_val (statsReset r))) else 0) ls] @
       (if avail
        then [constMetric (statDatabaseActiveTime ns) CounterValue
                (Float64 (activeTime r) / 1000) ls]
        else [])) \<and>
   \<not> snd (Update_row ns avail r st)"
  unfolding reaches_emission_def identity_present_def numeric_present_def Update_row_def
  by (simp add: ch_Debug ch_send Let_def MustNewConstMetric_catalog emit_Some)

lemma queried_Update_row: "queried (fst (Update_row ns avail r st)) = queried st"
  unfolding Update_row_def by (simp add: Let_def queried_emit queried_Debug)


lemma row_emitted_skip:
  "\<not> reaches_emission avail r \<Longrightarrow> row_emitted ns avail r = [] \<and> \<not> row_panics ns avail r"
  using Update_row_skip [of avail r ns] by (simp add: row_emitted_def row_panics_def)

lemma row_emitted_panic:
  "reaches_emission avail r \<Longrightarrow> \<not> row_safe ns r \<Longrightarrow>
   row_emitted ns avail r = [] \<and> row_panics ns avail r"
  using Update_row_panic [of avail r ns] by (simp add: row_emitted_def row_panics_def)

lemma row_emitted_ok:
  "reaches_emission avail r \<Longrightarrow> row_safe ns r \<Longrightarrow>
   row_emitted ns avail r =
     (let ls = [String_val (datid r), String_val (datname r)] in
       [constMetric (statDatabaseNumbackends ns) GaugeValue (Float64 (numBackends r)) ls,
        constMetric (statDatabaseXactCommit ns) CounterValue (Float64 (xactCommit r)) ls,
        constMetric (statDatabaseXactRollback ns) CounterValue (Float64 (xactRollback r)) ls,
        constMetric (statDatabaseBlksRead ns) CounterValue (Float64 (blksRead r)) ls,
        constMetric (statDatabaseBlksHit ns) CounterValue (Float64 (blksHit r)) ls,
        constMetric (statDatabaseTupReturned ns) CounterValue (Float64 (tupReturned r)) ls,
        constMetric (statDatabaseTupFetched ns) CounterValue (Float64 (tupFetched r)) ls,
        constMetric (statDatabaseTupInserted ns) CounterValue (Float64 (tupInserted r)) ls,
        constMetric (statDatabaseTupUpdated ns) CounterValue (Float64 (tupUpdated r)) ls,
        constMetric (statDatabaseTupDeleted ns) CounterValue (Float64 (tupDeleted r)) ls,
        constMetric (statDatabaseConflicts ns) CounterValue (Float64 (conflicts r)) ls,
        constMetric (statDatabaseTempFiles ns) CounterValue (Float64 (tempFiles r)) ls,
        constMetric (statDatabaseTempBytes ns) CounterValue (Float64 (tempBytes r)) ls,
        constMetric (statDatabaseDeadlocks ns) CounterValue (Float64 (deadlocks r)) ls,
        constMetric (statDatabaseBlkReadTime ns) CounterValue (Float64 (blkReadTime r)) ls,
        constMetric (statDatabaseBlkWriteTime ns) CounterValue (Float64 (blkWriteTime r)) ls,
        constMetric (statDatabaseStatsReset ns) CounterValue
          (if Time_Valid (statsReset r) then real_of_int (Unix (Time_val (statsReset r))) else 0) ls] @
       (if avail
        then [constMetric (statDatabaseActiveTime ns) CounterValue
                (Float64 (activeTime r) / 1000) ls]
        else [])) \<and>
   \<not> row_panics ns avail r"
  unfolding row_emitted_def row_panics_def by (subst Update_row_ok) (simp_all add: Update_row_ok)

lemma row_panics_iff: "row_panics ns avail r \<longleftrightarrow> reaches_emission avail r \<and> \<not> row_safe ns r"
  using row_emitted_skip [of avail r ns] row_emitted_panic [of avail r ns]
        row_emitted_ok [of avail r ns] by blast

lemma row_emitted_nonempty:
  "row_emitted ns avail r \<noteq> [] \<Longrightarrow> reaches_emission avail r \<and> row_safe ns r"
  using row_emitted_skip [of avail r ns] row_emitted_panic [of avail r ns] by blast

lemma row_panics_emitted: "row_panics ns avail r \<Longrightarrow> row_emitted ns avail r = []"
  using row_emitted_panic [of avail r ns] by (simp add: row_panics_iff)

lemma Update_row_out:
  "ch (fst (Update_row ns avail r st)) = ch st @ row_emitted ns avail r \<and>
   snd (Update_row ns avail r st) = row_panics ns avail r"
proof (cases "reaches_emission avail r")
  case False
  then show ?thesis
    using Update_row_skip [OF False, of ns st] row_emitted_skip [OF False, of ns] by simp
next
  case True
  show ?thesis
  proof (cases "row_safe ns r")
    case safe: True
    show ?thesis
      using Update_row_ok [OF True safe, of st] row_emitted_ok [OF True safe] by simp
  next
    case False
    then show ?thesis
      using Update_row_panic [OF True False, of st] row_emitted_panic [OF True False] by simp
  qed
qed

subsection \<open>The loop over the rows\<close>

lemma Update_row_activeTime_unused:
  "Update_row ns False (r\<lparr>activeTime := z\<rparr>) st = Update_row ns False r st"
  by (simp add: Update_row_def)

declare Update_rows.simps(2) [simp del]

lemma Update_rows_Inr:
  "Update_rows ns avail (Inr r # rows) st =
     (if row_panics ns avail r then (fst (Update_row ns avail r st), Panic)
      else Update_rows ns avail rows (fst (Update_row ns avail r st)))"
  using Update_row_out [of ns avail r st]
  by (cases "Update_row ns avail r st")
    (auto simp add: Update_rows.simps(2) Scan_def Update_row_activeTime_unused)

lemma Update_rows_Inl: "Update_rows ns avail (Inl e # rows) st = (st, Return (Some e))"
  by (simp add: Update_rows.simps(2) Scan_def)

lemma row_emitted_empty_out: "ch (fst (Update_row ns avail r empty_out)) = row_emitted ns avail r"
  by (simp add: row_emitted_def empty_out_def)

lemma Update_rows_state:
  "ch (fst (Update_rows ns avail rows st)) = ch st @ ch (fst (Update_rows ns avail rows empty_out)) \<and>
   snd (Update_rows ns avail rows st) = snd (Update_rows ns avail rows empty_out)"
proof (induction rows arbitrary: st)
  case Nil
  show ?case by (simp add: empty_out_def)
next
  case (Cons row rows)
  show ?case
  proof (cases row)
    case (Inl e)
    then show ?thesis by (simp add: Update_rows_Inl empty_out_def)
  next
    case (Inr r)
    let ?st1 = "fst (Update_row ns avail r st)"
    let ?st0 = "fst (Update_row ns avail r empty_out)"
    have s1: "ch ?st1 = ch st @ row_emitted ns avail r"
      by (simp add: Update_row_out)
    have s0: "ch ?st0 = row_emitted ns avail r"
      by (rule row_emitted_empty_out)
    show ?thesis
    proof (cases "row_panics ns avail r")
      case True
      then show ?thesis
        unfolding Inr by (simp add: Update_rows_Inr s1 s0)
    next
      case False
      have a: "ch (fst (Update_rows ns avail rows ?st1)) =
               ch st @ row_emitted ns avail r @ ch (fst (Update_rows ns avail rows empty_out))"
        using Cons.IH [of ?st1] by (simp add: s1)
      have b: "ch (fst (Update_rows ns avail rows ?st0)) =
               row_emitted ns avail r @ ch (fst (Update_rows ns avail rows empty_out))"
        using Cons.IH [of ?st0] by (simp add: s0)
      have c: "snd (Update_rows ns avail rows ?st1) = snd (Update_rows ns avail rows ?st0)"
        using Cons.IH [of ?st1] Cons.IH [of ?st0] by simp
      show ?thesis
        unfolding Inr using False a b c by (simp add: Update_rows_Inr)
    qed
  qed
qed

lemma Update_rows_scanned:
  "ch (fst (Update_rows ns avail (map Inr rs) st)) =
     ch st @ concat (map (row_emitted ns avail) (takeWhile (\<lambda>r. \<not> row_panics ns avail r) rs)) \<and>
   snd (Update_rows ns avail (map Inr rs) st) =
     (if list_all (\<lambda>r. \<not> row_panics ns avail r) rs then Return None else Panic)"
  by (induction rs arbitrary: st)
    (simp_all add: Update_rows_Inr Update_row_out row_panics_emitted)

lemma Update_rows_scan_error:
  "ch (fst (Update_rows ns avail (map Inr rs @ Inl e # post) st)) =
     ch (fst (Update_rows ns avail (map Inr rs) st)) \<and>
   snd (Update_rows ns avail (map Inr rs @ Inl e # post) st) =
     (if list_all (\<lambda>r. \<not> row_panics ns avail r) rs then Return (Some e) else Panic)"
  by (induction rs arbitrary: st) (simp_all add: Update_rows_Inr Update_rows_Inl)

lemma Update_rows_skip_row:
  assumes "\<not> reaches_emission avail r"
  shows "ch (fst (Update_rows ns avail (pre @ Inr r # post) st)) =
           ch (fst (Update_rows ns avail (pre @ post) st)) \<and>
         snd (Update_rows ns avail (pre @ Inr r # post) st) =
           snd (Update_rows ns avail (pre @ post) st)"
proof (induction pre arbitrary: st)
  case Nil
  have e: "row_emitted ns avail r = []" and p: "\<not> row_panics ns avail r"
    using row_emitted_skip [OF assms, of ns] by simp_all
  have "ch (fst (Update_row ns avail r st)) = ch st"
    by (simp add: Update_row_out e)
  then show ?case
    using Update_rows_state [of ns avail post "fst (Update_row ns avail r st)"]
          Update_rows_state [of ns avail post st] p
    by (simp add: Update_rows_Inr)
next
  case (Cons row pre)
  show ?case
  proof (cases row)
    case (Inl e)
    then show ?thesis by (simp add: Update_rows_Inl)
  next
    case (Inr r')
    then show ?thesis using Cons.IH by (simp add: Update_rows_Inr)
  qed
qed

lemma queried_Update_rows: "queried (fst (Update_rows ns avail rows st)) = queried st"
proof (induction rows arbitrary: st)
  case Nil
  show ?case by simp
next
  case (Cons row rows)
  show ?case
  proof (cases row)
    case (Inl e)
    then show ?thesis by (simp add: Update_rows_Inl)
  next
    case (Inr r)
    then show ?thesis
      using Cons.IH [of "fst (Update_row ns avail r st)"]
      by (simp add: Update_rows_Inr queried_Update_row)
  qed
qed

lemma Update_row_skip_log:
  "\<not> reaches_emission avail r \<Longrightarrow>
   \<exists>msg. debugLog (fst (Update_row ns avail r st)) = debugLog st @ [msg]"
  unfolding reaches_emission_def identity_present_def numeric_present_def Update_row_def
  by (simp add: debugLog_Debug)

lemma Update_row_no_identity_log:
  "\<not> identity_present r \<Longrightarrow>
   debugLog (fst (Update_row ns avail r st)) = debugLog st @
     [if \<not> String_Valid (datid r) then ''Skipping collecting metric because it has no datid''
      else ''Skipping collecting metric because it has no datname'']"
  unfolding identity_present_def Update_row_def by (simp add: debugLog_Debug)

subsection \<open>A whole call\<close>

lemma Update_eq:
  "Update ns inst st =
     (case getDB inst (statDatabaseQuery (columns (version inst))) of
        Inl e \<Rightarrow> (st\<lparr>queried := queried st @ [statDatabaseQuery (columns (version inst))]\<rparr>,
                  Return (Some e))
      | Inr rows \<Rightarrow>
          Update_rows ns (activeTimeAvail (version inst)) rows
            (st\<lparr>queried := queried st @ [statDatabaseQuery (columns (version inst))]\<rparr>))"
  by (simp add: Update_def QueryContext_def split: sum.split)

lemma Update_out:
  "ch (fst (Update ns inst st)) = ch st @ emitted ns inst \<and>
   snd (Update ns inst st) = returned ns inst \<and>
   queried (fst (Update ns inst st)) = queried st @ [statDatabaseQuery (columns (version inst))]"
proof (cases "getDB inst (statDatabaseQuery (columns (version inst)))")
  case (Inl e)
  then show ?thesis by (simp add: Update_eq emitted_def returned_def)
next
  case (Inr rows)
  let ?q = "statDatabaseQuery (columns (version inst))"
  show ?thesis
    using Update_rows_state [of ns "activeTimeAvail (version inst)" rows "st\<lparr>queried := queried st @ [?q]\<rparr>"]
          Update_rows_state [of ns "activeTimeAvail (version inst)" rows "\<lparr>ch = [], debugLog = [], queried = [] @ [?q]\<rparr>"]
    by (simp add: Update_eq Inr emitted_def returned_def queried_Update_rows)
qed

lemma emitted_rows:
  assumes "getDB inst (statDatabaseQuery (columns (version inst))) = Inr rows"
  shows "emitted ns inst = ch (fst (Update_rows ns (activeTimeAvail (version inst)) rows empty_out)) \<and>
         returned ns inst = snd (Update_rows ns (activeTimeAvail (version inst)) rows empty_out)"
  using Update_rows_state [of ns "activeTimeAvail (version inst)" rows
          "\<lparr>ch = [], debugLog = [], queried = [] @ [statDatabaseQuery (columns (version inst))]\<rparr>"]
  by (simp add: emitted_def returned_def Update_eq assms)

lemma emitted_query_error:
  assumes "getDB inst (statDatabaseQuery (columns (version inst))) = Inl e"
  shows "emitted ns inst = [] \<and> returned ns inst = Return (Some e)"
  by (simp add: emitted_def returned_def Update_eq assms)

lemma emitted_scanned:
  assumes "getDB inst (statDatabaseQuery (columns (version inst))) = Inr (map Inr rs)"
  shows "emitted ns inst =
           concat (map (row_emitted ns (activeTimeAvail (version inst)))
                    (takeWhile (\<lambda>r. \<not> row_panics ns (activeTimeAvail (version inst)) r) rs)) \<and>
         returned ns inst =
           (if list_all (\<lambda>r. \<not> row_panics ns (activeTimeAvail (version inst)) r) rs
            then Return None else Panic)"
  using emitted_rows [OF assms, of ns]
        Update_rows_scanned [of ns "activeTimeAvail (version inst)" rs empty_out]
  by (simp add: empty_out_def)

lemma emitted_one:
  assumes "getDB inst (statDatabaseQuery (columns (version inst))) = Inr [Inr r]"
  shows "emitted ns inst = row_emitted ns (activeTimeAvail (version inst)) r \<and>
         returned ns inst =
           (if row_panics ns (activeTimeAvail (version inst)) r then Panic else Return None)"
  using emitted_scanned [of inst "[r]" ns] assms
  by (simp add: row_panics_emitted)

lemma instance_with_simps:
  "version (instance_with v res) = v" "getDB (instance_with v res) q = res"
  by (simp_all add: instance_with_def)

lemma emitted_skip_row:
  assumes "\<not> reaches_emission (activeTimeAvail v) r"
  shows "emitted ns (instance_with v (Inr (pre @ Inr r # post))) =
           emitted ns (instance_with v (Inr (pre @ post))) \<and>
         returned ns (instance_with v (Inr (pre @ Inr r # post))) =
           returned ns (instance_with v (Inr (pre @ post)))"
  using Update_rows_skip_row [OF assms, of ns pre post empty_out]
        emitted_rows [of "instance_with v (Inr (pre @ Inr r # post))" "pre @ Inr r # post" ns]
        emitted_rows [of "instance_with v (Inr (pre @ post))" "pre @ post" ns]
  by (simp add: instance_with_simps)


subsection \<open>The query builder\<close>

lemma foldl_Join: "foldl (\<lambda>b s. b @ sep @ s) e es = e @ concat (map (\<lambda>s. sep @ s) es)"
  by (induction es arbitrary: e) simp_all

lemma Join_Cons: "Join (e # es) sep = e @ concat (map (\<lambda>s. sep @ s) es)"
  by (cases es) (simp_all add: foldl_Join)

lemma split_on_plain: "c \<notin> set e \<Longrightarrow> split_on c e = [e]"
  by (induction e) auto

lemma split_on_sep: "c \<notin> set e \<Longrightarrow> split_on c (e @ c # rest) = e # split_on c rest"
  by (induction e) auto

lemma Join_Cons_Cons: "Join (e0 # e1 # es) sep = e0 @ sep @ Join (e1 # es) sep"
  by (simp only: Join_Cons) simp

lemma split_on_Join:
  "\<forall>e\<in>set (e0 # es). c \<notin> set e \<Longrightarrow> split_on c (Join (e0 # es) [c]) = e0 # es"
proof (induction es arbitrary: e0)
  case Nil
  then show ?case by (simp add: split_on_plain)
next
  case (Cons e1 es)
  have "split_on c (Join (e0 # e1 # es) [c]) = split_on c (e0 @ c # Join (e1 # es) [c])"
    by (simp only: Join_Cons_Cons) simp
  also have "\<dots> = e0 # split_on c (Join (e1 # es) [c])"
    using Cons.prems by (simp add: split_on_sep)
  also have "\<dots> = e0 # e1 # es"
    using Cons.prems by (simp add: Cons.IH)
  finally show ?case .
qed

lemma takeWhile_upto: "c \<notin> set xs \<Longrightarrow> takeWhile (\<lambda>x. x \<noteq> c) (xs @ c # ys) = xs"
  by (induction xs) auto

lemma dropWhile_upto: "c \<notin> set xs \<Longrightarrow> dropWhile (\<lambda>x. x \<noteq> c) (xs @ c # ys) = c # ys"
  by (induction xs) auto

lemma Join_no_blank:
  "\<forall>e\<in>set cs. CHR '' '' \<notin> set e \<Longrightarrow> CHR '' '' \<notin> set (Join cs '','')"
  by (cases cs) (auto simp: Join_Cons)

text \<open>Claim C8. The query builder is a function of the column list alone. For every
  non-empty list of column names (plain names: neither a comma nor a blank occurs in one,
  as the names are not escaped), the text it returns starts with \<^verbatim>\<open>SELECT\<close> and a blank; its
  select list, read at the commas, is the given list of columns in the given order; and
  what follows the select list is exactly the clause \<^verbatim>\<open>FROM pg_stat_database;\<close> on the fixed
  view, so that no filtering clause is part of the text.\<close>

theorem statDatabaseQuery_selects:
  assumes "cs \<noteq> []" and "\<forall>c\<in>set cs. plain_name c"
  shows "take 7 (statDatabaseQuery cs) = ''SELECT '' \<and>
         select_list (statDatabaseQuery cs) = cs \<and>
         after_select_list (statDatabaseQuery cs) = '' FROM pg_stat_database;''"
proof -
  from assms(1) obtain e es where cs: "cs = e # es" by (cases cs) auto
  have nb: "CHR '' '' \<notin> set (Join cs '','')"
    using assms(2) by (intro Join_no_blank) (simp add: plain_name_def)
  have tw: "takeWhile (\<lambda>x. x \<noteq> CHR '' '') (Join cs '','' @ '' FROM pg_stat_database;'') = Join cs '',''"
    using takeWhile_upto [OF nb] by simp
  have dw: "dropWhile (\<lambda>x. x \<noteq> CHR '' '') (Join cs '','' @ '' FROM pg_stat_database;'') = '' FROM pg_stat_database;''"
    using dropWhile_upto [OF nb] by simp
  have sp: "split_on (CHR '','') (Join cs '','') = cs"
    unfolding cs using assms(2) split_on_Join [of e es "CHR '',''"]
    by (simp add: plain_name_def cs)
  show ?thesis
    by (simp add: statDatabaseQuery_def select_list_def after_select_list_def tw dw sp)
qed


theorem statDatabaseQuery_selects_witness:
  "columns version_14_2_0 \<noteq> [] \<and> list_all plain_name (columns version_14_2_0) \<and>
   select_list (statDatabaseQuery (columns version_14_2_0)) = columns version_14_2_0 \<and>
   after_select_list (statDatabaseQuery (columns version_14_2_0)) = '' FROM pg_stat_database;''"
proof -
  have c: "columns version_14_2_0 = baseColumns @ [''active_time'']"
    by (simp add: columns_def activeTimeAvail_def GTE_def Compare_def version_14_2_0_def version_14_0_0_def)
  have h1: "columns version_14_2_0 \<noteq> []" by (simp add: c)
  have h2: "\<forall>c\<in>set (columns version_14_2_0). plain_name c"
    by (simp add: c baseColumns_def plain_name_def)
  from statDatabaseQuery_selects [OF h1 h2] h1 h2 show ?thesis
    by (simp add: list_all_iff)
qed




subsection \<open>The observations of a row\<close>

lemma desc_constMetric: "desc (constMetric d t v ls) = d"
  by (simp add: constMetric_def)

lemma valueType_constMetric: "valueType (constMetric d t v ls) = t"
  by (simp add: constMetric_def)

lemma labelValues_constMetric: "labelValues (constMetric d t v ls) = ls"
  by (simp add: constMetric_def)

lemma desc_row_emitted:
  "reaches_emission avail r \<Longrightarrow> row_safe ns r \<Longrightarrow>
   map desc (row_emitted ns avail r) = activeCatalog ns avail"
  by (simp add: row_emitted_ok activeCatalog_def desc_constMetric Let_def)

lemma length_activeCatalog: "length (activeCatalog ns avail) = (if avail then 18 else 17)"
  by (simp add: activeCatalog_def)

lemma length_columns: "length (columns v) = (if activeTimeAvail v then 20 else 19)"
  by (simp add: columns_def baseColumns_def)

lemma BuildFQName_eq_iff:
  "a \<noteq> [] \<Longrightarrow> b \<noteq> [] \<Longrightarrow>
   BuildFQName ns statDatabaseSubsystem a = BuildFQName ns statDatabaseSubsystem b \<longleftrightarrow> a = b"
  by (simp add: BuildFQName_def statDatabaseSubsystem_def)

lemma NewDesc_neq: "a \<noteq> a' \<Longrightarrow> NewDesc a h ls \<noteq> NewDesc a' h' ls'"
  by (auto simp: NewDesc_def)

lemma ActiveTime_neq:
  "statDatabaseNumbackends ns \<noteq> statDatabaseActiveTime ns"
  "statDatabaseXactCommit ns \<noteq> statDatabaseActiveTime ns"
  "statDatabaseXactRollback ns \<noteq> statDatabaseActiveTime ns"
  "statDatabaseBlksRead ns \<noteq> statDatabaseActiveTime ns"
  "statDatabaseBlksHit ns \<noteq> statDatabaseActiveTime ns"
  "statDatabaseTupReturned ns \<noteq> statDatabaseActiveTime ns"
  "statDatabaseTupFetched ns \<noteq> statDatabaseActiveTime ns"
  "statDatabaseTupInserted ns \<noteq> statDatabaseActiveTime ns"
  "statDatabaseTupUpdated ns \<noteq> statDatabaseActiveTime ns"
  "statDatabaseTupDeleted ns \<noteq> statDatabaseActiveTime ns"
  "statDatabaseConflicts ns \<noteq> statDatabaseActiveTime ns"
  "statDatabaseTempFiles ns \<noteq> statDatabaseActiveTime ns"
  "statDatabaseTempBytes ns \<noteq> statDatabaseActiveTime ns"
  "statDatabaseDeadlocks ns \<noteq> statDatabaseActiveTime ns"
  "statDatabaseBlkReadTime ns \<noteq> statDatabaseActiveTime ns"
  "statDatabaseBlkWriteTime ns \<noteq> statDatabaseActiveTime ns"
  "statDatabaseStatsReset ns \<noteq> statDatabaseActiveTime ns"
  unfolding desc_defs by (rule NewDesc_neq, simp add: BuildFQName_eq_iff)+

lemma StatsReset_neq:
  "statDatabaseNumbackends ns \<noteq> statDatabaseStatsReset ns"
  "statDatabaseXactCommit ns \<noteq> statDatabaseStatsReset ns"
  "statDatabaseXactRollback ns \<noteq> statDatabaseStatsReset ns"
  "statDatabaseBlksRead ns \<noteq> statDatabaseStatsReset ns"
  "statDatabaseBlksHit ns \<noteq> statDatabaseStatsReset ns"
  "statDatabaseTupReturned ns \<noteq> statDatabaseStatsReset ns"
  "statDatabaseTupFetched ns \<noteq> statDatabaseStatsReset ns"
  "statDatabaseTupInserted ns \<noteq> statDatabaseStatsReset ns"
  "statDatabaseTupUpdated ns \<noteq> statDatabaseStatsReset ns"
  "statDatabaseTupDeleted ns \<noteq> statDatabaseStatsReset ns"
  "statDatabaseConflicts ns \<noteq> statDatabaseStatsReset ns"
  "statDatabaseTempFiles ns \<noteq> statDatabaseStatsReset ns"
  "statDatabaseTempBytes ns \<noteq> statDatabaseStatsReset ns"
  "statDatabaseDeadlocks ns \<noteq> statDatabaseStatsReset ns"
  "statDatabaseBlkReadTime ns \<noteq> statDatabaseStatsReset ns"
  "statDatabaseBlkWriteTime ns \<noteq> statDatabaseStatsReset ns"
  unfolding desc_defs by (rule NewDesc_neq, simp add: BuildFQName_eq_iff)+

lemma ActiveTime_filter:
  "reaches_emission avail r \<Longrightarrow> row_safe ns r \<Longrightarrow>
   filter (\<lambda>m. desc m = statDatabaseActiveTime ns) (row_emitted ns avail r) =
     (if avail then [constMetric (statDatabaseActiveTime ns) CounterValue
                       (Float64 (activeTime r) / 1000) (row_labels r)] else [])"
  by (simp add: row_emitted_ok desc_constMetric Let_def row_labels_def
      ActiveTime_neq ActiveTime_neq [symmetric] StatsReset_neq StatsReset_neq [symmetric])

lemma ActiveTime_observations:
  "m \<in> set (row_emitted ns avail r) \<Longrightarrow> desc m = statDatabaseActiveTime ns \<Longrightarrow>
   avail \<and> m = constMetric (statDatabaseActiveTime ns) CounterValue
                 (Float64 (activeTime r) / 1000) (row_labels r)"
proof -
  assume m: "m \<in> set (row_emitted ns avail r)" and d: "desc m = statDatabaseActiveTime ns"
  then have e: "row_emitted ns avail r \<noteq> []" by auto
  have "m \<in> set (filter (\<lambda>m. desc m = statDatabaseActiveTime ns) (row_emitted ns avail r))"
    using m d by simp
  then show ?thesis
    using ActiveTime_filter [of avail r ns] row_emitted_nonempty [OF e]
    by (simp split: if_splits)
qed

lemma StatsReset_filter:
  "reaches_emission avail r \<Longrightarrow> row_safe ns r \<Longrightarrow>
   filter (\<lambda>m. desc m = statDatabaseStatsReset ns) (row_emitted ns avail r) =
     [constMetric (statDatabaseStatsReset ns) CounterValue
        (if Time_Valid (statsReset r) then real_of_int (Unix (Time_val (statsReset r))) else 0)
        (row_labels r)]"
  by (simp add: row_emitted_ok desc_constMetric Let_def row_labels_def
      ActiveTime_neq ActiveTime_neq [symmetric] StatsReset_neq StatsReset_neq [symmetric])

lemma Gauge_filter:
  "reaches_emission avail r \<Longrightarrow> row_safe ns r \<Longrightarrow>
   filter (\<lambda>m. valueType m = GaugeValue) (row_emitted ns avail r) =
     [constMetric (statDatabaseNumbackends ns) GaugeValue (Float64 (numBackends r))
        (row_labels r)]"
  by (simp add: row_emitted_ok valueType_constMetric Let_def row_labels_def)

lemma row_emitted_kinds:
  "reaches_emission avail r \<Longrightarrow> row_safe ns r \<Longrightarrow> m \<in> set (row_emitted ns avail r) \<Longrightarrow>
   labelValues m = row_labels r \<and>
   (desc m \<noteq> statDatabaseNumbackends ns \<longrightarrow> valueType m = CounterValue)"
  by (auto simp add: row_emitted_ok valueType_constMetric labelValues_constMetric
      desc_constMetric Let_def row_labels_def split: if_splits)

subsection \<open>Versions, queries and the example inputs\<close>

lemma GTE_14_trans: "GTE v1 v2 \<Longrightarrow> GTE v2 version_14_0_0 \<Longrightarrow> GTE v1 version_14_0_0"
  by (auto simp: GTE_def Compare_def version_14_0_0_def split: if_splits)

lemma version_gated_columns:
  "version_gated (columns v) = (if activeTimeAvail v then [''active_time''] else [])"
  by (simp add: version_gated_def columns_def baseColumns_def)

lemma activeTimeAvail_13: "\<not> activeTimeAvail version_13_0_0"
  by (simp add: activeTimeAvail_def GTE_def Compare_def version_13_0_0_def version_14_0_0_def)

lemma activeTimeAvail_14_2: "activeTimeAvail version_14_2_0"
  by (simp add: activeTimeAvail_def GTE_def Compare_def version_14_2_0_def version_14_0_0_def)

lemma plain_columns: "columns v \<noteq> [] \<and> (\<forall>c\<in>set (columns v). plain_name c)"
  by (simp add: columns_def baseColumns_def plain_name_def)

lemma select_list_query:
  assumes "cs \<noteq> []" and "\<forall>c\<in>set cs. plain_name c"
  shows "select_list (statDatabaseQuery cs) = cs"
proof -
  from assms(1) obtain e es where cs: "cs = e # es" by (cases cs) auto
  have nb: "CHR '' '' \<notin> set (Join cs '','')"
    using assms(2) by (intro Join_no_blank) (simp add: plain_name_def)
  have tw: "takeWhile (\<lambda>x. x \<noteq> CHR '' '') (Join cs '','' @ '' FROM pg_stat_database;'') = Join cs '',''"
    using takeWhile_upto [OF nb] by simp
  have sp: "split_on (CHR '','') (Join cs '','') = cs"
    unfolding cs using assms(2) split_on_Join [of e es "CHR '',''"]
    by (simp add: plain_name_def cs)
  show ?thesis
    by (simp add: statDatabaseQuery_def select_list_def tw sp)
qed

lemma select_list_columns: "select_list (statDatabaseQuery (columns v)) = columns v"
  using plain_columns [of v] by (intro select_list_query) simp_all

lemma query_13: "statDatabaseQuery (columns version_13_0_0) = query_19"
  using activeTimeAvail_13 by (simp add: columns_def baseColumns_def statDatabaseQuery_def query_19_def)

lemma query_14: "statDatabaseQuery (columns version_14_2_0) = query_20"
  using activeTimeAvail_14_2 by (simp add: columns_def baseColumns_def statDatabaseQuery_def query_20_def)

lemma pg13_simps:
  "version (pg13 res) = version_13_0_0"
  "getDB (pg13 res) (statDatabaseQuery (columns (version (pg13 res)))) = res"
  "getDB (pg13 res) (statDatabaseQuery (columns version_13_0_0)) = res"
  by (simp_all add: pg13_def query_13 answering_def)

lemma pg14_simps:
  "version (pg14 res) = version_14_2_0"
  "getDB (pg14 res) (statDatabaseQuery (columns (version (pg14 res)))) = res"
  "getDB (pg14 res) (statDatabaseQuery (columns version_14_2_0)) = res"
  by (simp_all add: pg14_def query_14 answering_def)

lemma namespace_valid_pg: "namespace_valid ''pg''"
  by (simp add: namespace_valid_def IsValidMetricName_def isValidLegacyRune_def)

lemma reaches_emission_example: "reaches_emission avail example_row"
  by (simp add: reaches_emission_def identity_present_def numeric_present_def example_row_def
      present_def)

lemma labels_valid_example: "labels_valid example_row"
  by (simp add: labels_valid_def example_row_def byte_in_def)

lemma row_safe_example: "row_safe ''pg'' example_row"
  by (simp add: row_safe_def namespace_valid_pg labels_valid_example)

lemma length_row_emitted_example:
  "length (row_emitted ''pg'' avail example_row) = (if avail then 18 else 17)"
  using arg_cong [OF desc_row_emitted [OF reaches_emission_example row_safe_example, of avail], of length]
  by (simp add: length_activeCatalog)

lemma reaches_emission_bad_name: "reaches_emission avail bad_name_row"
  by (simp add: reaches_emission_def identity_present_def numeric_present_def bad_name_row_def
      example_row_def present_def)

lemma not_row_safe_bad_name: "\<not> row_safe ns bad_name_row"
  by (simp add: row_safe_def labels_valid_def bad_name_row_def byte_in_def)

lemma emitted_one_with:
  "emitted ns (instance_with v (Inr [Inr r])) = row_emitted ns (activeTimeAvail v) r \<and>
   returned ns (instance_with v (Inr [Inr r])) =
     (if row_panics ns (activeTimeAvail v) r then Panic else Return None)"
  using emitted_one [of "instance_with v (Inr [Inr r])" r ns]
  by (simp add: instance_with_simps)


subsection \<open>Rows with every column present\<close>

text \<open>Claim C2, as stated, fails: the row \<open>bad_name_row\<close> has every requested column, yet at
  version 13.0.0 the call that reads it sends no observation, not 17 (the number of active
  descriptors), and ends in a panic: its \<^verbatim>\<open>datname\<close> is not valid UTF-8, and
  \<^verbatim>\<open>MustNewConstMetric\<close> panics on the first metric.\<close>

theorem full_row_observation_count_counterexample:
  "reaches_emission (activeTimeAvail version_13_0_0) bad_name_row \<and>
   length (activeCatalog ''pg'' (activeTimeAvail version_13_0_0)) = 17 \<and>
   emitted ''pg'' (pg13 (Inr [Inr bad_name_row])) = [] \<and>
   returned ''pg'' (pg13 (Inr [Inr bad_name_row])) = Panic"
proof -
  have p: "row_emitted ''pg'' False bad_name_row = [] \<and> row_panics ''pg'' False bad_name_row"
    using reaches_emission_bad_name not_row_safe_bad_name by (rule row_emitted_panic)
  show ?thesis
    using emitted_one [of "pg13 (Inr [Inr bad_name_row])" bad_name_row "''pg''"] p
    by (simp add: pg13_simps activeTimeAvail_13 reaches_emission_bad_name length_activeCatalog)
qed

text \<open>Claim C2, amended. For every row that has all the requested columns and whose \<^verbatim>\<open>datid\<close>
  and \<^verbatim>\<open>datname\<close> are valid UTF-8 (the names of the descriptors being valid), a call whose
  query is answered with this one row sends as many observations as the column list has
  columns other than the two identity columns, one for each descriptor active for the
  column list, in the order of the declarations, and returns \<^verbatim>\<open>nil\<close>. With version 13.0.0
  these are exactly 17 and none of them is for \<^verbatim>\<open>active_time\<close>; with version 14.2.0 and the
  raw value 4200 in \<^verbatim>\<open>active_time\<close> these are exactly 18, and the observation of
  \<^verbatim>\<open>active_time\<close> with value 4.2 is among them.\<close>

theorem full_row_observation_count:
  assumes "getDB inst (statDatabaseQuery (columns (version inst))) = Inr [Inr r]"
    and "reaches_emission (activeTimeAvail (version inst)) r"
    and "labels_valid r" and "namespace_valid ns"
  shows "(let out = emitted ns inst in
          length out = length (columns (version inst)) - 2 \<and>
          map desc out = activeCatalog ns (activeTimeAvail (version inst)) \<and>
          (version inst = version_13_0_0 \<longrightarrow>
             length out = 17 \<and> (\<forall>m\<in>set out. desc m \<noteq> statDatabaseActiveTime ns)) \<and>
          (version inst = version_14_2_0 \<and> Float64 (activeTime r) = 4200 \<longrightarrow>
             length out = 18 \<and>
             constMetric (statDatabaseActiveTime ns) CounterValue 4.2 (row_labels r) \<in> set out)) \<and>
         returned ns inst = Return None"
proof -
  let ?v = "version inst"
  let ?out = "row_emitted ns (activeTimeAvail ?v) r"
  have s: "row_safe ns r"
    using assms(3,4) by (simp add: row_safe_def)
  have np: "\<not> row_panics ns (activeTimeAvail ?v) r"
    using s by (simp add: row_panics_iff)
  have d: "map desc ?out = activeCatalog ns (activeTimeAvail ?v)"
    using assms(2) s by (rule desc_row_emitted)
  have l: "length ?out = length (columns ?v) - 2"
    using arg_cong [OF d, of length] by (simp add: length_activeCatalog length_columns)
  have f: "filter (\<lambda>m. desc m = statDatabaseActiveTime ns) ?out =
     (if activeTimeAvail ?v then [constMetric (statDatabaseActiveTime ns) CounterValue
                       (Float64 (activeTime r) / 1000) (row_labels r)] else [])"
    using assms(2) s by (rule ActiveTime_filter)
  have a: "?v = version_13_0_0 \<Longrightarrow>
           length ?out = 17 \<and> (\<forall>m\<in>set ?out. desc m \<noteq> statDatabaseActiveTime ns)"
  proof -
    assume v: "?v = version_13_0_0"
    have "filter (\<lambda>m. desc m = statDatabaseActiveTime ns) ?out = []"
      using f by (simp add: v activeTimeAvail_13)
    then have "\<forall>m\<in>set ?out. desc m \<noteq> statDatabaseActiveTime ns"
      by (simp add: filter_empty_conv)
    then show ?thesis using l by (simp add: v length_columns activeTimeAvail_13)
  qed
  have b: "?v = version_14_2_0 \<and> Float64 (activeTime r) = 4200 \<Longrightarrow> length ?out = 18 \<and>
             constMetric (statDatabaseActiveTime ns) CounterValue 4.2 (row_labels r) \<in> set ?out"
  proof -
    assume h: "?v = version_14_2_0 \<and> Float64 (activeTime r) = 4200"
    have "filter (\<lambda>m. desc m = statDatabaseActiveTime ns) ?out =
            [constMetric (statDatabaseActiveTime ns) CounterValue 4.2 (row_labels r)]"
      using f h by (simp add: activeTimeAvail_14_2)
    then have "constMetric (statDatabaseActiveTime ns) CounterValue 4.2 (row_labels r)
                 \<in> set (filter (\<lambda>m. desc m = statDatabaseActiveTime ns) ?out)"
      by simp
    then have "constMetric (statDatabaseActiveTime ns) CounterValue 4.2 (row_labels r) \<in> set ?out"
      by simp
    then show ?thesis using l h by (simp add: length_columns activeTimeAvail_14_2)
  qed
  have e: "emitted ns inst = ?out" and r: "returned ns inst = Return None"
    using emitted_one [OF assms(1), of ns] np by simp_all
  show ?thesis
    unfolding Let_def e r using d l a b by blast
qed

theorem full_row_observation_count_witness:
  "getDB (pg13 (Inr [Inr example_row])) query_19 = Inr [Inr example_row] \<and>
   getDB (pg13 (Inr [Inr example_row])) [] = Inl (Error ''unknown query'') \<and>
   reaches_emission (activeTimeAvail version_13_0_0) example_row \<and>
   labels_valid example_row \<and> namespace_valid ''pg'' \<and>
   length (emitted ''pg'' (pg13 (Inr [Inr example_row]))) = 17 \<and>
   list_all (\<lambda>m. desc m \<noteq> statDatabaseActiveTime ''pg'') (emitted ''pg'' (pg13 (Inr [Inr example_row]))) \<and>
   returned ''pg'' (pg13 (Inr [Inr example_row])) = Return None \<and>
   reaches_emission (activeTimeAvail version_14_2_0) example_row \<and>
   length (emitted ''pg'' (pg14 (Inr [Inr example_row]))) = 18 \<and>
   constMetric (statDatabaseActiveTime ''pg'') CounterValue 4.2 [''12345'', ''appdb'']
     \<in> set (emitted ''pg'' (pg14 (Inr [Inr example_row])))"
proof -
  have q13: "getDB (pg13 (Inr [Inr example_row]))
               (statDatabaseQuery (columns (version (pg13 (Inr [Inr example_row]))))) = Inr [Inr example_row]"
    by (rule pg13_simps)
  have q14: "getDB (pg14 (Inr [Inr example_row]))
               (statDatabaseQuery (columns (version (pg14 (Inr [Inr example_row]))))) = Inr [Inr example_row]"
    by (rule pg14_simps)
  have h13: "reaches_emission (activeTimeAvail (version (pg13 (Inr [Inr example_row])))) example_row"
    and h14: "reaches_emission (activeTimeAvail (version (pg14 (Inr [Inr example_row])))) example_row"
    by (rule reaches_emission_example)+
  have r: "Float64 (activeTime example_row) = 4200" "row_labels example_row = [''12345'', ''appdb'']"
    by (simp_all add: example_row_def present_def row_labels_def)
  have g: "getDB (pg13 (Inr [Inr example_row])) query_19 = Inr [Inr example_row]"
          "getDB (pg13 (Inr [Inr example_row])) [] = Inl (Error ''unknown query'')"
    by (simp_all add: pg13_def answering_def query_19_def)
  show ?thesis
    using full_row_observation_count [OF q13 h13 labels_valid_example namespace_valid_pg]
          full_row_observation_count [OF q14 h14 labels_valid_example namespace_valid_pg]
          reaches_emission_example labels_valid_example namespace_valid_pg r g
    by (simp add: Let_def list_all_iff pg13_simps pg14_simps)
qed

subsection \<open>Rows without identity\<close>

text \<open>Claim C3. For every row in which \<^verbatim>\<open>datid\<close> or \<^verbatim>\<open>datname\<close> is absent, no observation is
  sent for that row; the call sends what it sends, and ends as it ends, for the same result
  without that row, so the rows before and after it are handled as usual and no error
  comes from it (a call that reads this row alone returns \<^verbatim>\<open>nil\<close>); and the only trace of
  the row is one debug message, naming the first of the two columns that is absent.\<close>

theorem identity_missing_row_discarded:
  assumes "\<not> identity_present r"
  shows "row_emitted ns (activeTimeAvail v) r = [] \<and>
         emitted ns (instance_with v (Inr (pre @ Inr r # post))) =
           emitted ns (instance_with v (Inr (pre @ post))) \<and>
         returned ns (instance_with v (Inr (pre @ Inr r # post))) =
           returned ns (instance_with v (Inr (pre @ post))) \<and>
         returned ns (instance_with v (Inr [Inr r])) = Return None \<and>
         debugLog (fst (Update_row ns (activeTimeAvail v) r st)) = debugLog st @
           [if \<not> String_Valid (datid r) then ''Skipping collecting metric because it has no datid''
            else ''Skipping collecting metric because it has no datname'']"
proof -
  have n: "\<not> reaches_emission (activeTimeAvail v) r"
    using assms by (simp add: reaches_emission_def)
  show ?thesis
    using row_emitted_skip [OF n, of ns] emitted_skip_row [OF n, of ns pre post]
          emitted_one_with [of ns v r]
          Update_row_no_identity_log [OF assms, of ns "activeTimeAvail v" st]
    by simp
qed

theorem identity_missing_row_discarded_witness:
  "\<not> identity_present no_datname_row \<and>
   row_emitted ''pg'' (activeTimeAvail version_13_0_0) no_datname_row = [] \<and>
   emitted ''pg'' (instance_with version_13_0_0 (Inr [Inr no_datname_row, Inr example_row])) =
     emitted ''pg'' (instance_with version_13_0_0 (Inr [Inr example_row])) \<and>
   returned ''pg'' (instance_with version_13_0_0 (Inr [Inr no_datname_row, Inr example_row])) =
     Return None"
proof -
  have h: "\<not> identity_present no_datname_row"
    by (simp add: identity_present_def no_datname_row_def)
  have "\<not> row_panics ''pg'' (activeTimeAvail version_13_0_0) example_row"
    using row_safe_example by (simp add: row_panics_iff)
  then have e: "returned ''pg'' (instance_with version_13_0_0 (Inr [Inr example_row])) = Return None"
    using emitted_one_with [of "''pg''" version_13_0_0 example_row] by simp
  show ?thesis
    using identity_missing_row_discarded [OF h, of "''pg''" version_13_0_0 "[]" "[Inr example_row]"]
          h e
    by simp
qed

subsection \<open>Failures\<close>

text \<open>Claim C4. When the query fails, \<^verbatim>\<open>Update\<close> returns that error and the channel is as it
  was: nothing is sent in the whole call. When \<^verbatim>\<open>Scan\<close> fails on a row that the loop reaches
  (the rows before it were scanned and none of them ended in a panic), \<^verbatim>\<open>Update\<close> returns
  that error, and what it has sent are the observations of the rows before the failing
  one: nothing for the failing row, nothing for any later row.\<close>

theorem query_or_scan_failure_aborts:
  "(getDB inst (statDatabaseQuery (columns (version inst))) = Inl e \<longrightarrow>
      ch (fst (Update ns inst st)) = ch st \<and> snd (Update ns inst st) = Return (Some e)) \<and>
   (getDB inst (statDatabaseQuery (columns (version inst))) = Inr (map Inr rs @ Inl e # post) \<and>
    list_all (\<lambda>r. \<not> row_panics ns (activeTimeAvail (version inst)) r) rs \<longrightarrow>
      ch (fst (Update ns inst st)) =
        ch st @ concat (map (row_emitted ns (activeTimeAvail (version inst))) rs) \<and>
      snd (Update ns inst st) = Return (Some e))"
proof -
  let ?a = "activeTimeAvail (version inst)"
  have 1: "getDB inst (statDatabaseQuery (columns (version inst))) = Inl e \<Longrightarrow>
           ch (fst (Update ns inst st)) = ch st \<and> snd (Update ns inst st) = Return (Some e)"
    using emitted_query_error [of inst e ns] Update_out [of ns inst st] by simp
  have 2: "ch (fst (Update ns inst st)) = ch st @ concat (map (row_emitted ns ?a) rs) \<and>
           snd (Update ns inst st) = Return (Some e)"
    if q: "getDB inst (statDatabaseQuery (columns (version inst))) = Inr (map Inr rs @ Inl e # post)"
      and p: "list_all (\<lambda>r. \<not> row_panics ns ?a r) rs"
  proof -
    have t: "takeWhile (\<lambda>r. \<not> row_panics ns ?a r) rs = rs"
      using p by (simp add: list_all_iff)
    show ?thesis
      using emitted_rows [OF q, of ns] Update_out [of ns inst st]
            Update_rows_scan_error [of ns ?a rs e post empty_out]
            Update_rows_scanned [of ns ?a rs empty_out] p t
      by (simp add: empty_out_def)
  qed
  show ?thesis using 1 2 by blast
qed

theorem query_or_scan_failure_aborts_witness:
  "ch (fst (Update ''pg'' (pg14 (Inl (Error ''connection refused''))) empty_out)) = [] \<and>
   snd (Update ''pg'' (pg14 (Inl (Error ''connection refused''))) empty_out) =
     Return (Some (Error ''connection refused'')) \<and>
   list_all (\<lambda>r. \<not> row_panics ''pg'' (activeTimeAvail version_14_2_0) r) [example_row] \<and>
   length (ch (fst (Update ''pg''
      (pg14 (Inr [Inr example_row, Inl (Error ''bad scan''), Inr example_row])) empty_out))) = 18 \<and>
   snd (Update ''pg''
      (pg14 (Inr [Inr example_row, Inl (Error ''bad scan''), Inr example_row])) empty_out) =
     Return (Some (Error ''bad scan''))"
proof -
  have p: "list_all (\<lambda>r. \<not> row_panics ''pg'' (activeTimeAvail version_14_2_0) r) [example_row]"
    using row_safe_example by (simp add: row_panics_iff)
  have c: "ch empty_out = []"
    by (simp add: empty_out_def)
  show ?thesis
    using query_or_scan_failure_aborts [of "pg14 (Inl (Error ''connection refused''))"
            "Error ''connection refused''" "''pg''" empty_out "[]" "[]"]
          query_or_scan_failure_aborts [of
            "pg14 (Inr [Inr example_row, Inl (Error ''bad scan''), Inr example_row])"
            "Error ''bad scan''" "''pg''" empty_out "[example_row]" "[Inr example_row]"]
          p c length_row_emitted_example [of True]
    by (simp add: pg14_simps activeTimeAvail_14_2)
qed

subsection \<open>The active time\<close>

text \<open>Claim C5. A call passes exactly one query text to the database, and \<^verbatim>\<open>active_time\<close> is
  in the select list of that text if and only if the version is at least 14.0.0. In a call
  whose query is answered with one row, every observation of the active-time descriptor
  is sent under that gate only and is the Counter whose value is the raw value of the row
  divided by 1000; when the column is requested and the row passes the checks (with label
  values and descriptor names that are valid) there is exactly one. The division is part
  of the emission: the scanned row itself holds the raw value, \<^verbatim>\<open>Scan\<close> leaving the row as
  the database gave it.\<close>

theorem active_time_gate_and_scale:
  "queried (fst (Update ns inst st)) = queried st @ [statDatabaseQuery (columns (version inst))] \<and>
   (''active_time'' \<in> set (select_list (statDatabaseQuery (columns (version inst)))) \<longleftrightarrow>
      GTE (version inst) version_14_0_0) \<and>
   (getDB inst (statDatabaseQuery (columns (version inst))) = Inr [Inr r] \<longrightarrow>
      (\<forall>m\<in>set (emitted ns inst). desc m = statDatabaseActiveTime ns \<longrightarrow>
         GTE (version inst) version_14_0_0 \<and>
         m = constMetric (statDatabaseActiveTime ns) CounterValue
               (Float64 (activeTime r) / 1000) (row_labels r)) \<and>
      (GTE (version inst) version_14_0_0 \<and> reaches_emission True r \<and> labels_valid r \<and>
       namespace_valid ns \<longrightarrow>
         filter (\<lambda>m. desc m = statDatabaseActiveTime ns) (emitted ns inst) =
           [constMetric (statDatabaseActiveTime ns) CounterValue
              (Float64 (activeTime r) / 1000) (row_labels r)])) \<and>
   (GTE (version inst) version_14_0_0 \<longrightarrow> Scan (activeTimeAvail (version inst)) (Inr r) = Inr r)"
proof -
  let ?v = "version inst"
  have q: "queried (fst (Update ns inst st)) = queried st @ [statDatabaseQuery (columns ?v)]"
    by (simp add: Update_out)
  have c: "''active_time'' \<in> set (select_list (statDatabaseQuery (columns ?v))) \<longleftrightarrow>
           GTE ?v version_14_0_0"
    by (simp add: select_list_columns) (simp add: columns_def baseColumns_def activeTimeAvail_def)
  have s: "GTE ?v version_14_0_0 \<longrightarrow> Scan (activeTimeAvail ?v) (Inr r) = Inr r"
    by (simp add: Scan_def activeTimeAvail_def)
  have o: "\<forall>m\<in>set (emitted ns inst). desc m = statDatabaseActiveTime ns \<longrightarrow>
         GTE ?v version_14_0_0 \<and>
         m = constMetric (statDatabaseActiveTime ns) CounterValue
               (Float64 (activeTime r) / 1000) (row_labels r)"
    if g: "getDB inst (statDatabaseQuery (columns ?v)) = Inr [Inr r]"
    using emitted_one [OF g, of ns] ActiveTime_observations [of _ ns "activeTimeAvail ?v" r]
    by (auto simp: activeTimeAvail_def)
  have f: "filter (\<lambda>m. desc m = statDatabaseActiveTime ns) (emitted ns inst) =
           [constMetric (statDatabaseActiveTime ns) CounterValue
              (Float64 (activeTime r) / 1000) (row_labels r)]"
    if g: "getDB inst (statDatabaseQuery (columns ?v)) = Inr [Inr r]"
      and h: "GTE ?v version_14_0_0 \<and> reaches_emission True r \<and> labels_valid r \<and> namespace_valid ns"
  proof -
    have a: "activeTimeAvail ?v" using h by (simp add: activeTimeAvail_def)
    have "row_safe ns r" using h by (simp add: row_safe_def)
    then show ?thesis
      using emitted_one [OF g, of ns] ActiveTime_filter [of True r ns] h a by simp
  qed
  show ?thesis using q c s o f by blast
qed

theorem active_time_gate_and_scale_witness:
  "queried (fst (Update ''pg'' (pg14 (Inr [Inr raw_2500_row])) empty_out)) = [query_20] \<and>
   ''active_time'' \<in> set (select_list query_20) \<and> GTE version_14_2_0 version_14_0_0 \<and>
   queried (fst (Update ''pg'' (pg13 (Inr [Inr raw_2500_row])) empty_out)) = [query_19] \<and>
   ''active_time'' \<notin> set (select_list query_19) \<and>
   reaches_emission True raw_2500_row \<and> labels_valid raw_2500_row \<and> namespace_valid ''pg'' \<and>
   Float64 (activeTime raw_2500_row) = 2500 \<and>
   filter (\<lambda>m. desc m = statDatabaseActiveTime ''pg'') (emitted ''pg'' (pg14 (Inr [Inr raw_2500_row]))) =
     [constMetric (statDatabaseActiveTime ''pg'') CounterValue 2.5 [''12345'', ''appdb'']]"
proof -
  have h: "reaches_emission True raw_2500_row"
    by (simp add: reaches_emission_def identity_present_def numeric_present_def raw_2500_row_def
        example_row_def present_def)
  have l: "labels_valid raw_2500_row"
    by (simp add: labels_valid_def raw_2500_row_def example_row_def byte_in_def)
  have r: "Float64 (activeTime raw_2500_row) = 2500" "row_labels raw_2500_row = [''12345'', ''appdb'']"
    by (simp_all add: raw_2500_row_def example_row_def present_def row_labels_def)
  have g: "GTE version_14_2_0 version_14_0_0" "\<not> GTE version_13_0_0 version_14_0_0"
    using activeTimeAvail_14_2 activeTimeAvail_13 by (simp_all add: activeTimeAvail_def)
  have e: "queried empty_out = []"
    by (simp add: empty_out_def)
  note a = active_time_gate_and_scale [of "''pg''" "pg14 (Inr [Inr raw_2500_row])" empty_out raw_2500_row]
  note b = active_time_gate_and_scale [of "''pg''" "pg13 (Inr [Inr raw_2500_row])" empty_out raw_2500_row]
  have 1: "queried (fst (Update ''pg'' (pg14 (Inr [Inr raw_2500_row])) empty_out)) = [query_20]"
    using a [THEN conjunct1] by (simp add: pg14_simps query_14 e)
  have 2: "''active_time'' \<in> set (select_list query_20)"
    using a [THEN conjunct2, THEN conjunct1] g by (simp add: pg14_simps query_14)
  have 3: "queried (fst (Update ''pg'' (pg13 (Inr [Inr raw_2500_row])) empty_out)) = [query_19]"
    using b [THEN conjunct1] by (simp add: pg13_simps query_13 e)
  have 4: "''active_time'' \<notin> set (select_list query_19)"
    using b [THEN conjunct2, THEN conjunct1] g by (simp add: pg13_simps query_13)
  have 5: "filter (\<lambda>m. desc m = statDatabaseActiveTime ''pg'') (emitted ''pg'' (pg14 (Inr [Inr raw_2500_row]))) =
     [constMetric (statDatabaseActiveTime ''pg'') CounterValue 2.5 [''12345'', ''appdb'']]"
    using a [THEN conjunct2, THEN conjunct2, THEN conjunct1] h l namespace_valid_pg g r
    by (simp add: pg14_simps)
  show ?thesis
    using 1 2 3 4 5 h l namespace_valid_pg g r by simp
qed

subsection \<open>The reset timestamp\<close>

text \<open>Claim C6, as stated, fails: the row \<open>bad_name_no_reset_row\<close> passes every check of the
  loop body and its \<^verbatim>\<open>stats_reset\<close> is absent, yet no observation of the reset timestamp is
  sent and the call ends in a panic: its \<^verbatim>\<open>datname\<close> is not valid UTF-8.\<close>

theorem stats_reset_default_zero_counterexample:
  "reaches_emission (activeTimeAvail version_13_0_0) bad_name_no_reset_row \<and>
   \<not> Time_Valid (statsReset bad_name_no_reset_row) \<and>
   filter (\<lambda>m. desc m = statDatabaseStatsReset ''pg'')
     (emitted ''pg'' (pg13 (Inr [Inr bad_name_no_reset_row]))) = [] \<and>
   returned ''pg'' (pg13 (Inr [Inr bad_name_no_reset_row])) = Panic"
proof -
  have h: "reaches_emission avail bad_name_no_reset_row" for avail
    by (simp add: reaches_emission_def identity_present_def numeric_present_def
        bad_name_no_reset_row_def bad_name_row_def example_row_def present_def)
  have n: "\<not> row_safe ''pg'' bad_name_no_reset_row"
    by (simp add: row_safe_def labels_valid_def bad_name_no_reset_row_def bad_name_row_def byte_in_def)
  have p: "row_emitted ''pg'' False bad_name_no_reset_row = [] \<and>
           row_panics ''pg'' False bad_name_no_reset_row"
    using h n by (rule row_emitted_panic)
  have t: "\<not> Time_Valid (statsReset bad_name_no_reset_row)"
    by (simp add: bad_name_no_reset_row_def)
  show ?thesis
    using emitted_one [of "pg13 (Inr [Inr bad_name_no_reset_row])" bad_name_no_reset_row "''pg''"]
          p h t
    by (simp add: pg13_simps activeTimeAvail_13)
qed

text \<open>Claim C6, amended. For every row that passes the checks of the loop body, whose
  \<^verbatim>\<open>datid\<close> and \<^verbatim>\<open>datname\<close> are valid UTF-8 (the names of the descriptors being valid) and
  whose \<^verbatim>\<open>stats_reset\<close> is absent, the observation of the reset-timestamp descriptor is sent
  all the same, exactly once, with value 0 and kind Counter; the row sends all its
  observations and the call returns \<^verbatim>\<open>nil\<close>.\<close>

theorem stats_reset_default_zero:
  assumes "getDB inst (statDatabaseQuery (columns (version inst))) = Inr [Inr r]"
    and "reaches_emission (activeTimeAvail (version inst)) r"
    and "labels_valid r" and "namespace_valid ns"
    and "\<not> Time_Valid (statsReset r)"
  shows "filter (\<lambda>m. desc m = statDatabaseStatsReset ns) (emitted ns inst) =
           [constMetric (statDatabaseStatsReset ns) CounterValue 0 (row_labels r)] \<and>
         map desc (emitted ns inst) = activeCatalog ns (activeTimeAvail (version inst)) \<and>
         returned ns inst = Return None"
proof -
  have s: "row_safe ns r"
    using assms(3,4) by (simp add: row_safe_def)
  have np: "\<not> row_panics ns (activeTimeAvail (version inst)) r"
    using s by (simp add: row_panics_iff)
  show ?thesis
    using StatsReset_filter [OF assms(2) s] desc_row_emitted [OF assms(2) s] assms(5)
          emitted_one [OF assms(1), of ns] np
    by simp
qed

theorem stats_reset_default_zero_witness:
  "reaches_emission (activeTimeAvail version_13_0_0) no_stats_reset_row \<and>
   labels_valid no_stats_reset_row \<and> namespace_valid ''pg'' \<and>
   \<not> Time_Valid (statsReset no_stats_reset_row) \<and>
   filter (\<lambda>m. desc m = statDatabaseStatsReset ''pg'')
     (emitted ''pg'' (pg13 (Inr [Inr no_stats_reset_row]))) =
     [constMetric (statDatabaseStatsReset ''pg'') CounterValue 0 [''12345'', ''appdb'']] \<and>
   returned ''pg'' (pg13 (Inr [Inr no_stats_reset_row])) = Return None"
proof -
  let ?i = "pg13 (Inr [Inr no_stats_reset_row])"
  have q: "getDB ?i (statDatabaseQuery (columns (version ?i))) = Inr [Inr no_stats_reset_row]"
    by (rule pg13_simps)
  have h0: "reaches_emission avail no_stats_reset_row" for avail
    by (simp add: reaches_emission_def identity_present_def numeric_present_def
        no_stats_reset_row_def example_row_def present_def)
  have h1: "reaches_emission (activeTimeAvail (version ?i)) no_stats_reset_row"
    by (rule h0)
  have l: "labels_valid no_stats_reset_row"
    by (simp add: labels_valid_def no_stats_reset_row_def example_row_def byte_in_def)
  have h2: "\<not> Time_Valid (statsReset no_stats_reset_row)"
    by (simp add: no_stats_reset_row_def)
  have r: "row_labels no_stats_reset_row = [''12345'', ''appdb'']"
    by (simp add: no_stats_reset_row_def example_row_def row_labels_def)
  show ?thesis
    using stats_reset_default_zero [OF q h1 l namespace_valid_pg h2] h0 l namespace_valid_pg h2 r
    by simp
qed

subsection \<open>The column list\<close>

text \<open>Claim C7. The column list is a function of the version: the unconditional columns in
  their fixed order, followed by \<^verbatim>\<open>active_time\<close> when the version is at least 14.0.0. It is
  monotone: when a version \<open>v1\<close> is at least a version \<open>v2\<close>, the version-gated columns of
  \<open>v2\<close> are among the version-gated columns of \<open>v1\<close>.\<close>

theorem columns_deterministic_monotone:
  "columns v = baseColumns @ (if GTE v version_14_0_0 then [''active_time''] else []) \<and>
   version_gated (columns v) = (if GTE v version_14_0_0 then [''active_time''] else []) \<and>
   (GTE v1 v2 \<longrightarrow> set (version_gated (columns v2)) \<subseteq> set (version_gated (columns v1)))"
proof -
  have m: "GTE v1 v2 \<Longrightarrow> set (version_gated (columns v2)) \<subseteq> set (version_gated (columns v1))"
    using GTE_14_trans [of v1 v2] by (auto simp: version_gated_columns activeTimeAvail_def)
  show ?thesis
    using m by (simp add: version_gated_columns) (simp add: columns_def activeTimeAvail_def)
qed

theorem columns_deterministic_monotone_witness:
  "GTE version_14_2_0 version_13_0_0 \<and>
   version_gated (columns version_13_0_0) = [] \<and>
   version_gated (columns version_14_2_0) = [''active_time''] \<and>
   set (version_gated (columns version_13_0_0)) \<subseteq> set (version_gated (columns version_14_2_0))"
proof -
  have h: "GTE version_14_2_0 version_13_0_0"
    by (simp add: GTE_def Compare_def version_14_2_0_def version_13_0_0_def)
  have g: "GTE version_14_2_0 version_14_0_0" "\<not> GTE version_13_0_0 version_14_0_0"
    using activeTimeAvail_14_2 activeTimeAvail_13 by (simp_all add: activeTimeAvail_def)
  note m = columns_deterministic_monotone [of version_13_0_0 version_14_2_0 version_13_0_0]
  note n = columns_deterministic_monotone [of version_14_2_0 version_14_2_0 version_13_0_0]
  have a: "version_gated (columns version_13_0_0) = []"
    using m [THEN conjunct2, THEN conjunct1] g by simp
  have b: "version_gated (columns version_14_2_0) = [''active_time'']"
    using n [THEN conjunct2, THEN conjunct1] g by simp
  have c: "set (version_gated (columns version_13_0_0)) \<subseteq> set (version_gated (columns version_14_2_0))"
    using m [THEN conjunct2, THEN conjunct2] h by simp
  show ?thesis
    using h a b c by simp
qed

subsection \<open>All or nothing\<close>

text \<open>Claim C9. A scanned row sends either no observation at all or one observation for each
  descriptor active for the version, in the order of the declarations. When a requested
  numeric column other than the reset timestamp is absent, the row is skipped: it sends
  nothing (and does not panic). A row that ends in a panic has sent nothing either. A call
  whose rows are all scanned sends the observations of its rows, one row after the other, up
  to the first row that ends in a panic.\<close>

theorem row_all_or_nothing:
  "(row_emitted ns avail r = [] \<or> map desc (row_emitted ns avail r) = activeCatalog ns avail) \<and>
   (\<not> numeric_present avail r \<longrightarrow> row_emitted ns avail r = [] \<and> \<not> row_panics ns avail r) \<and>
   (row_panics ns avail r \<longrightarrow> row_emitted ns avail r = []) \<and>
   (getDB inst (statDatabaseQuery (columns (version inst))) = Inr (map Inr rs) \<longrightarrow>
      emitted ns inst =
        concat (map (row_emitted ns (activeTimeAvail (version inst)))
                 (takeWhile (\<lambda>r. \<not> row_panics ns (activeTimeAvail (version inst)) r) rs)))"
proof -
  have a: "row_emitted ns avail r = [] \<or> map desc (row_emitted ns avail r) = activeCatalog ns avail"
    using row_emitted_nonempty [of ns avail r] desc_row_emitted [of avail r ns] by blast
  have b: "\<not> numeric_present avail r \<Longrightarrow> row_emitted ns avail r = [] \<and> \<not> row_panics ns avail r"
    by (rule row_emitted_skip) (simp add: reaches_emission_def)
  have c: "row_panics ns avail r \<Longrightarrow> row_emitted ns avail r = []"
    by (rule row_panics_emitted)
  show ?thesis
    using a b c emitted_scanned [of inst rs ns] by blast
qed

theorem row_all_or_nothing_witness:
  "\<not> numeric_present False no_deadlocks_row \<and> identity_present no_deadlocks_row \<and>
   row_emitted ''pg'' False no_deadlocks_row = [] \<and>
   map desc (row_emitted ''pg'' False example_row) = activeCatalog ''pg'' False \<and>
   row_panics ''pg'' False bad_name_row \<and> row_emitted ''pg'' False bad_name_row = [] \<and>
   emitted ''pg'' (pg13 (Inr [Inr no_deadlocks_row, Inr example_row, Inr bad_name_row, Inr example_row])) =
     row_emitted ''pg'' False example_row"
proof -
  let ?rs = "[no_deadlocks_row, example_row, bad_name_row, example_row]"
  let ?i = "pg13 (Inr (map Inr ?rs))"
  have h: "\<not> numeric_present False no_deadlocks_row"
    by (simp add: numeric_present_def no_deadlocks_row_def absent_def)
  have i: "identity_present no_deadlocks_row"
    by (simp add: identity_present_def no_deadlocks_row_def example_row_def)
  have e: "row_emitted ''pg'' False example_row \<noteq> []"
    using length_row_emitted_example [of False] by auto
  have p: "row_panics ''pg'' False bad_name_row"
    using reaches_emission_bad_name not_row_safe_bad_name by (simp add: row_panics_iff)
  have np: "\<not> row_panics ''pg'' False example_row"
    using row_safe_example by (simp add: row_panics_iff)
  have q: "getDB ?i (statDatabaseQuery (columns (version ?i))) = Inr (map Inr ?rs)"
    by (rule pg13_simps)
  note a = row_all_or_nothing [of "''pg''" False no_deadlocks_row ?i ?rs]
  note b = row_all_or_nothing [of "''pg''" False example_row ?i ?rs]
  note c = row_all_or_nothing [of "''pg''" False bad_name_row ?i ?rs]
  have 1: "row_emitted ''pg'' False no_deadlocks_row = [] \<and> \<not> row_panics ''pg'' False no_deadlocks_row"
    using a h by blast
  have 2: "map desc (row_emitted ''pg'' False example_row) = activeCatalog ''pg'' False"
    using b e by blast
  have 3: "row_emitted ''pg'' False bad_name_row = []"
    using c p by blast
  have 4: "emitted ''pg'' ?i = row_emitted ''pg'' False example_row"
    using a q 1 np p by (simp add: pg13_simps activeTimeAvail_13)
  show ?thesis
    using h i 1 2 3 4 p by simp
qed

subsection \<open>Kinds and labels\<close>

text \<open>Claim C10. For every row that sends observations, exactly one of them has kind Gauge,
  the one of the backend count; every observation of another descriptor (the reset
  timestamp and the active time among them) has kind Counter; and every observation carries
  the two label values \<^verbatim>\<open>datid\<close>, \<^verbatim>\<open>datname\<close> of the row, in this order.\<close>

theorem one_gauge_two_labels:
  assumes "row_emitted ns avail r \<noteq> []"
  shows "filter (\<lambda>m. valueType m = GaugeValue) (row_emitted ns avail r) =
           [constMetric (statDatabaseNumbackends ns) GaugeValue (Float64 (numBackends r))
              [String_val (datid r), String_val (datname r)]] \<and>
         (\<forall>m\<in>set (row_emitted ns avail r).
            labelValues m = [String_val (datid r), String_val (datname r)] \<and>
            (desc m \<noteq> statDatabaseNumbackends ns \<longrightarrow> valueType m = CounterValue))"
proof -
  have h: "reaches_emission avail r" and s: "row_safe ns r"
    using row_emitted_nonempty [OF assms] by simp_all
  show ?thesis
    using Gauge_filter [OF h s] row_emitted_kinds [OF h s]
    by (simp add: row_labels_def)
qed

theorem one_gauge_two_labels_witness:
  "row_emitted ''pg'' True example_row \<noteq> [] \<and>
   filter (\<lambda>m. valueType m = GaugeValue) (row_emitted ''pg'' True example_row) =
     [constMetric (statDatabaseNumbackends ''pg'') GaugeValue 3 [''12345'', ''appdb'']] \<and>
   list_all (\<lambda>m. labelValues m = [''12345'', ''appdb''] \<and>
                (desc m = statDatabaseNumbackends ''pg'' \<or> valueType m = CounterValue))
     (row_emitted ''pg'' True example_row)"
proof -
  have e: "row_emitted ''pg'' True example_row \<noteq> []"
    using length_row_emitted_example [of True] by auto
  have r: "String_val (datid example_row) = ''12345''" "String_val (datname example_row) = ''appdb''"
          "Float64 (numBackends example_row) = 3"
    by (simp_all add: example_row_def present_def)
  show ?thesis
    using one_gauge_two_labels [OF e] e r by (auto simp: list_all_iff)
qed

subsection \<open>A row with one optional column absent\<close>

text \<open>Claim C1, as stated, fails: at version 13.0.0 the full example row sends 17
  observations, and the same row with only \<^verbatim>\<open>deadlocks\<close> absent sends none, not 16.\<close>

theorem missing_optional_column_counterexample:
  "length (emitted ''pg'' (instance_with version_13_0_0 (Inr [Inr example_row]))) = 17 \<and>
   emitted ''pg'' (instance_with version_13_0_0 (Inr [Inr no_deadlocks_row])) = [] \<and>
   \<not> (length (emitted ''pg'' (instance_with version_13_0_0 (Inr [Inr no_deadlocks_row]))) =
       length (emitted ''pg'' (instance_with version_13_0_0 (Inr [Inr example_row]))) - 1)"
proof -
  have a: "length (row_emitted ''pg'' False example_row) = 17"
    using length_row_emitted_example [of False] by simp
  have "\<not> reaches_emission False no_deadlocks_row"
    by (simp add: reaches_emission_def numeric_present_def no_deadlocks_row_def absent_def)
  then have b: "row_emitted ''pg'' False no_deadlocks_row = []"
    using row_emitted_skip by blast
  show ?thesis
    using a b by (simp add: emitted_one_with activeTimeAvail_13)
qed

text \<open>Claim C1, amended. For every row whose identity columns are present, if the value of a
  requested column other than the identity columns and the reset timestamp (for example
  the deadlock count) is absent, the row sends no observation at all; the call sends what
  it sends, and ends as it ends, for the same result without that row, so no error comes
  from the row (a call that reads this row alone returns \<^verbatim>\<open>nil\<close>) and the other rows are
  unaffected; one debug message is logged.\<close>

theorem missing_optional_column_skips_row:
  assumes "identity_present r" and "\<not> numeric_present (activeTimeAvail v) r"
  shows "row_emitted ns (activeTimeAvail v) r = [] \<and>
         emitted ns (instance_with v (Inr (pre @ Inr r # post))) =
           emitted ns (instance_with v (Inr (pre @ post))) \<and>
         returned ns (instance_with v (Inr (pre @ Inr r # post))) =
           returned ns (instance_with v (Inr (pre @ post))) \<and>
         returned ns (instance_with v (Inr [Inr r])) = Return None \<and>
         (\<exists>msg. debugLog (fst (Update_row ns (activeTimeAvail v) r st)) = debugLog st @ [msg])"
proof -
  have n: "\<not> reaches_emission (activeTimeAvail v) r"
    using assms(2) by (simp add: reaches_emission_def)
  show ?thesis
    using row_emitted_skip [OF n, of ns] emitted_skip_row [OF n, of ns pre post]
          emitted_one_with [of ns v r] Update_row_skip_log [OF n, of ns st]
    by simp
qed

theorem missing_optional_column_skips_row_witness:
  "identity_present no_deadlocks_row \<and>
   \<not> numeric_present (activeTimeAvail version_13_0_0) no_deadlocks_row \<and>
   row_emitted ''pg'' (activeTimeAvail version_13_0_0) no_deadlocks_row = [] \<and>
   emitted ''pg'' (instance_with version_13_0_0 (Inr [Inr example_row, Inr no_deadlocks_row])) =
     emitted ''pg'' (instance_with version_13_0_0 (Inr [Inr example_row])) \<and>
   returned ''pg'' (instance_with version_13_0_0 (Inr [Inr no_deadlocks_row])) = Return None"
proof -
  have h: "\<not> numeric_present (activeTimeAvail version_13_0_0) no_deadlocks_row"
    by (simp add: numeric_present_def no_deadlocks_row_def absent_def)
  have i: "identity_present no_deadlocks_row"
    by (simp add: identity_present_def no_deadlocks_row_def example_row_def)
  show ?thesis
    using missing_optional_column_skips_row [OF i h, of "''pg''" "[Inr example_row]" "[]"] h i
    by simp
qed

end
